theory Spec2Isabelle
  imports Main
begin

section \<open>Text and the string operations of the runtime\<close>

text \<open>
  The model of \<^verbatim>\<open>src/lib/search.ts\<close> (class \<^verbatim>\<open>WebSearchClient\<close>).

  Text is a \<^typ>\<open>string\<close> holding the UTF-8 bytes of the JavaScript string. A byte sequence
  that is not well-formed UTF-8 stands for text with an unpaired surrogate, the one input on
  which \<^verbatim>\<open>encodeURIComponent\<close> raises.
\<close>

text \<open>
  Two tables of the JavaScript runtime are not part of the repository and are parameters of
  the model: the Unicode case tables behind \<^verbatim>\<open>toLowerCase\<close>, and the printing of numbers
  that are too large to be printed digit by digit.
\<close>

record runtime =
  unicode_lower :: "string \<Rightarrow> string"
    \<comment> \<open>\<^verbatim>\<open>toLowerCase\<close> of a text that has a character outside ASCII\<close>
  large_number_text :: "int \<Rightarrow> string"
    \<comment> \<open>the text of an integer beyond \<open>2 ^ 53\<close> in absolute value\<close>

datatype error =
    URIError                  \<comment> \<open>raised by \<^verbatim>\<open>encodeURIComponent\<close> / \<^verbatim>\<open>decodeURIComponent\<close>\<close>
  | NetworkError              \<comment> \<open>\<^verbatim>\<open>fetch\<close> rejected\<close>
  | RequestFailed string      \<comment> \<open>\<^verbatim>\<open>new Error(`Search request failed: ${response.statusText}`)\<close>\<close>
  | BodyError                 \<comment> \<open>\<^verbatim>\<open>response.text()\<close> rejected\<close>
  | StoreError                \<comment> \<open>a \<^verbatim>\<open>prisma.searchCache\<close> operation rejected\<close>

subsection \<open>\<^verbatim>\<open>String.prototype.toLowerCase\<close>\<close>

text \<open>
  In a text of ASCII characters only, the letters A to Z are mapped to a to z and nothing
  else changes. For any other text the result is what the runtime's case tables give.
\<close>

definition lower_table :: "(char \<times> char) list" where
  "lower_table = zip ''ABCDEFGHIJKLMNOPQRSTUVWXYZ'' ''abcdefghijklmnopqrstuvwxyz''"

definition lower_char :: "char \<Rightarrow> char" where
  "lower_char c = (case map_of lower_table c of Some l \<Rightarrow> l | None \<Rightarrow> c)"

definition ascii :: "char \<Rightarrow> bool" where
  "ascii c = (of_char c < (128 :: nat))"

definition toLowerCase :: "runtime \<Rightarrow> string \<Rightarrow> string" where
  "toLowerCase rt s = (if list_all ascii s then map lower_char s else unicode_lower rt s)"

subsection \<open>\<^verbatim>\<open>String.prototype.trim\<close>\<close>

text \<open>
  The white space and line terminators of ECMAScript, each as its UTF-8 bytes:
  U+0009 to U+000D, U+0020, U+00A0, U+1680, U+2000 to U+200A, U+2028, U+2029, U+202F,
  U+205F, U+3000 and U+FEFF.
\<close>

definition white_space :: "string list" where
  "white_space =
     [[CHR 0x09], [CHR 0x0A], [CHR 0x0B], [CHR 0x0C], [CHR 0x0D], [CHR 0x20],
      [CHR 0xC2, CHR 0xA0],
      [CHR 0xE1, CHR 0x9A, CHR 0x80],
      [CHR 0xE2, CHR 0x80, CHR 0x80], [CHR 0xE2, CHR 0x80, CHR 0x81],
      [CHR 0xE2, CHR 0x80, CHR 0x82], [CHR 0xE2, CHR 0x80, CHR 0x83],
      [CHR 0xE2, CHR 0x80, CHR 0x84], [CHR 0xE2, CHR 0x80, CHR 0x85],
      [CHR 0xE2, CHR 0x80, CHR 0x86], [CHR 0xE2, CHR 0x80, CHR 0x87],
      [CHR 0xE2, CHR 0x80, CHR 0x88], [CHR 0xE2, CHR 0x80, CHR 0x89],
      [CHR 0xE2, CHR 0x80, CHR 0x8A],
      [CHR 0xE2, CHR 0x80, CHR 0xA8], [CHR 0xE2, CHR 0x80, CHR 0xA9],
      [CHR 0xE2, CHR 0x80, CHR 0xAF],
      [CHR 0xE2, CHR 0x81, CHR 0x9F],
      [CHR 0xE3, CHR 0x80, CHR 0x80],
      [CHR 0xEF, CHR 0xBB, CHR 0xBF]]"

text \<open>Removes the leading characters that belong to \<open>ws\<close> (sequences of one to three bytes).\<close>

fun strip_leading :: "string list \<Rightarrow> string \<Rightarrow> string" where
  "strip_leading ws [] = []"
| "strip_leading ws (c # cs) =
     (if [c] \<in> set ws then strip_leading ws cs
      else if take 2 (c # cs) \<in> set ws then strip_leading ws (drop 1 cs)
      else if take 3 (c # cs) \<in> set ws then strip_leading ws (drop 2 cs)
      else c # cs)"

definition trim :: "string \<Rightarrow> string" where
  "trim s = rev (strip_leading (map rev white_space) (rev (strip_leading white_space s)))"

subsection \<open>\<^verbatim>\<open>startsWith\<close>, \<^verbatim>\<open>split\<close>, \<^verbatim>\<open>join\<close>, number to text\<close>

definition startsWith :: "string \<Rightarrow> string \<Rightarrow> bool" where
  "startsWith s p = (take (length p) s = p)"

text \<open>\<^verbatim>\<open>s.split(' ')\<close>: the pieces between the spaces; the empty text gives one empty piece.\<close>

fun split :: "string \<Rightarrow> string list" where
  "split [] = [[]]"
| "split (c # cs) =
     (if c = CHR '' '' then [] # split cs
      else (case split cs of p # ps \<Rightarrow> (c # p) # ps | [] \<Rightarrow> [[c]]))"

text \<open>\<^verbatim>\<open>pieces.join('+')\<close>\<close>

fun join :: "string list \<Rightarrow> string" where
  "join [] = []"
| "join [p] = p"
| "join (p # q # ps) = p @ CHR ''+'' # join (q # ps)"

definition digit :: "nat \<Rightarrow> char" where
  "digit d = ''0123456789'' ! (d mod 10)"

function digits :: "nat \<Rightarrow> string" where
  "digits n = (if n < 10 then [digit n] else digits (n div 10) @ [digit n])"
  by pat_completeness auto
termination
  by (relation "measure id") auto

text \<open>
  The text of an integer inside a template literal, \<^verbatim>\<open>`${maxResults}`\<close>. Up to \<open>2 ^ 53\<close> in
  absolute value every integer is a number of its own and is printed digit by digit. Beyond
  that the runtime prints the shortest digits that identify the number, in exponent form
  from \<^verbatim>\<open>1e21\<close> on.
\<close>

definition number_text :: "runtime \<Rightarrow> int \<Rightarrow> string" where
  "number_text rt i =
     (if \<bar>i\<bar> \<le> 2 ^ 53 then
        (if i < 0 then CHR ''-'' # digits (nat (- i)) else digits (nat i))
      else large_number_text rt i)"

subsection \<open>\<^verbatim>\<open>encodeURIComponent\<close>\<close>

definition cont :: "nat \<Rightarrow> bool" where
  "cont b = (128 \<le> b \<and> b \<le> 191)"

text \<open>One well-formed UTF-8 sequence of two to four bytes (no overlong form, no surrogate,
  nothing above U+10FFFF).\<close>

fun utf8_seq :: "nat list \<Rightarrow> bool" where
  "utf8_seq [a, b] = (194 \<le> a \<and> a \<le> 223 \<and> cont b)"
| "utf8_seq [a, b, c] =
     (cont c \<and>
      (a = 224 \<and> 160 \<le> b \<and> b \<le> 191
       \<or> ((225 \<le> a \<and> a \<le> 236) \<or> a = 238 \<or> a = 239) \<and> cont b
       \<or> a = 237 \<and> 128 \<le> b \<and> b \<le> 159))"
| "utf8_seq [a, b, c, d] =
     (cont c \<and> cont d \<and>
      (a = 240 \<and> 144 \<le> b \<and> b \<le> 191
       \<or> (241 \<le> a \<and> a \<le> 243) \<and> cont b
       \<or> a = 244 \<and> 128 \<le> b \<and> b \<le> 143))"
| "utf8_seq bs = False"

text \<open>The length a lead byte announces (its leading one bits); 0 for a byte that cannot lead.\<close>

definition seq_len :: "nat \<Rightarrow> nat" where
  "seq_len b =
     (if b < 128 then 1 else if b < 192 then 0 else if b < 224 then 2
      else if b < 240 then 3 else if b < 248 then 4 else 0)"

function wellformed :: "nat list \<Rightarrow> bool" where
  "wellformed [] = True"
| "wellformed (b # bs) =
     (if b < 128 then wellformed bs
      else utf8_seq (take (seq_len b) (b # bs)) \<and> wellformed (drop (seq_len b - 1) bs))"
  by pat_completeness auto
termination
  by (relation "measure length") auto

definition hex_digit :: "nat \<Rightarrow> char" where
  "hex_digit d = ''0123456789ABCDEF'' ! (d mod 16)"

definition uriUnreserved :: "char set" where
  "uriUnreserved =
     set ''ABCDEFGHIJKLMNOPQRSTUVWXYZabcdefghijklmnopqrstuvwxyz0123456789-_.!~*'' \<union> set [CHR 0x27] \<union> set ''()''"

definition encode_byte :: "char \<Rightarrow> string" where
  "encode_byte c =
     (if c \<in> uriUnreserved then [c]
      else [CHR ''%'', hex_digit (of_char c div 16), hex_digit (of_char c)])"

definition encodeURIComponent :: "string \<Rightarrow> error + string" where
  "encodeURIComponent s =
     (if wellformed (map of_char s) then Inr (concat (map encode_byte s)) else Inl URIError)"

subsection \<open>\<^verbatim>\<open>decodeURIComponent\<close>\<close>

definition hex_table :: "(char \<times> nat) list" where
  "hex_table =
     [(CHR ''0'', 0), (CHR ''1'', 1), (CHR ''2'', 2), (CHR ''3'', 3), (CHR ''4'', 4),
      (CHR ''5'', 5), (CHR ''6'', 6), (CHR ''7'', 7), (CHR ''8'', 8), (CHR ''9'', 9),
      (CHR ''a'', 10), (CHR ''b'', 11), (CHR ''c'', 12), (CHR ''d'', 13), (CHR ''e'', 14),
      (CHR ''f'', 15),
      (CHR ''A'', 10), (CHR ''B'', 11), (CHR ''C'', 12), (CHR ''D'', 13), (CHR ''E'', 14),
      (CHR ''F'', 15)]"

text \<open>Reads one escape \<^verbatim>\<open>%XY\<close> at the head of the text: its value and the rest.\<close>

fun read_octet :: "string \<Rightarrow> (nat \<times> string) option" where
  "read_octet (p # x # y # rest) =
     (if p = CHR ''%'' then
        (case (map_of hex_table x, map_of hex_table y) of
           (Some h, Some l) \<Rightarrow> Some (16 * h + l, rest)
         | _ \<Rightarrow> None)
      else None)"
| "read_octet s = None"

text \<open>Reads \<open>k\<close> escapes in a row.\<close>

fun read_octets :: "nat \<Rightarrow> string \<Rightarrow> (nat list \<times> string) option" where
  "read_octets 0 s = Some ([], s)"
| "read_octets (Suc k) s =
     (case read_octet s of
        None \<Rightarrow> None
      | Some (b, rest) \<Rightarrow>
          (case read_octets k rest of
             None \<Rightarrow> None
           | Some (bs, rest') \<Rightarrow> Some (b # bs, rest')))"

text \<open>
  The decoding loop of ECMAScript: a byte other than \<^verbatim>\<open>%\<close> is copied; an escape below
  0x80 gives that byte; an escape from 0x80 on must lead a sequence of two to four escapes
  that is well-formed UTF-8, and gives those bytes; anything else raises \<^verbatim>\<open>URIError\<close>.
\<close>

function decodeURIComponent :: "string \<Rightarrow> error + string" where
  "decodeURIComponent [] = Inr []"
| "decodeURIComponent (c # cs) =
     (if c \<noteq> CHR ''%'' then
        (case decodeURIComponent cs of Inl e \<Rightarrow> Inl e | Inr r \<Rightarrow> Inr (c # r))
      else
        (case read_octet (c # cs) of
           None \<Rightarrow> Inl URIError
         | Some (b, rest) \<Rightarrow>
             if b < 128 then
               (case decodeURIComponent rest of Inl e \<Rightarrow> Inl e | Inr r \<Rightarrow> Inr (char_of b # r))
             else
               (case read_octets (seq_len b - 1) rest of
                  None \<Rightarrow> Inl URIError
                | Some (bs, rest') \<Rightarrow>
                    if utf8_seq (b # bs) then
                      (case decodeURIComponent rest' of
                         Inl e \<Rightarrow> Inl e
                       | Inr r \<Rightarrow> Inr (map char_of (b # bs) @ r))
                    else Inl URIError)))"
  by pat_completeness auto
termination
proof -
  have one: "length rest < length s" if "read_octet s = Some (b, rest)" for s b rest
    using that by (induction s rule: read_octet.induct) (auto split: if_splits option.splits)
  have more: "length rest \<le> length s" if "read_octets k s = Some (bs, rest)" for k s bs rest
    using that
  proof (induction k arbitrary: s bs rest)
    case 0
    then show ?case by simp
  next
    case (Suc k)
    then show ?case
      by (fastforce split: option.splits dest: one)
  qed
  show ?thesis
    by (relation "measure length") (auto dest!: one more)
qed

section \<open>Data model\<close>

text \<open>\<^verbatim>\<open>interface SearchResult\<close> of the types module; \<^verbatim>\<open>source\<close> is optional there.\<close>

record SearchResult =
  title :: string
  url :: string
  snippet :: string
  source :: "string option"

text \<open>
  A row of \<^verbatim>\<open>prisma.searchCache\<close>. The table is addressed by its unique \<^verbatim>\<open>query\<close> column, so
  the store is a map from that column to the rest of the row; the row's \<^verbatim>\<open>id\<close>, which
  \<^verbatim>\<open>delete\<close> uses, names the same row as the key it was found under. Times are
  milliseconds since the epoch.
\<close>

record CacheEntry =
  results :: "SearchResult list"
  expiresAt :: int

text \<open>
  What one matched result container of the parsed page yields to the selectors of the loop
  body: the text of the title element(s), the \<^verbatim>\<open>href\<close> attribute of the link element
  (\<open>None\<close> for \<^verbatim>\<open>undefined\<close>: no such element or attribute), the text of the snippet element(s).
\<close>

record block =
  title_text :: string
  href :: "string option"
  snippet_text :: string

text \<open>
  A response: \<^verbatim>\<open>response.ok\<close>, \<^verbatim>\<open>response.statusText\<close>, and the body as \<^verbatim>\<open>cheerio\<close> sees
  it, the containers matched by the provider's selector in document order (\<open>None\<close>: reading
  the body failed).
\<close>

record response =
  ok :: bool
  statusText :: string
  body :: "block list option"

datatype fetched = Rejected | Response response

text \<open>
  What surrounds one call of \<^verbatim>\<open>search\<close>: the runtime, the network, the clock at the cache
  read (\<^verbatim>\<open>new Date()\<close>) and at the cache write (\<^verbatim>\<open>Date.now()\<close>), and whether each operation
  on the store rejects.
\<close>

record env =
  js :: runtime
  fetch :: "string \<Rightarrow> fetched"
  now_read :: int
  now_write :: int
  findUnique_fails :: bool
  delete_fails :: bool
  upsert_fails :: bool

text \<open>The state a call changes: the cache table, and the URLs requested so far (oldest first).\<close>

record world =
  searchCache :: "string \<rightharpoonup> CacheEntry"
  requested :: "string list"

section \<open>The cache\<close>

definition cacheExpiry :: int where
  "cacheExpiry = 24 * 60 * 60 * 1000"

text \<open>The body of the \<^verbatim>\<open>try\<close> block of \<^verbatim>\<open>getCachedResults\<close>.\<close>

definition getCachedResults_try ::
  "env \<Rightarrow> string \<Rightarrow> world \<Rightarrow> (error + SearchResult list option) \<times> world" where
  "getCachedResults_try e query w =
     (if findUnique_fails e then (Inl StoreError, w)
      else
        (case searchCache w (toLowerCase (js e) query) of
           None \<Rightarrow> (Inr None, w)
         | Some cached \<Rightarrow>
             if expiresAt cached > now_read e then (Inr (Some (results cached)), w)
             else if delete_fails e then (Inl StoreError, w)
             else (Inr None,
                   w\<lparr>searchCache := (searchCache w)(toLowerCase (js e) query := None)\<rparr>)))"

text \<open>\<^verbatim>\<open>getCachedResults\<close>: the \<^verbatim>\<open>catch\<close> turns every error into \<^verbatim>\<open>null\<close>.\<close>

definition getCachedResults ::
  "env \<Rightarrow> string \<Rightarrow> world \<Rightarrow> (error + SearchResult list option) \<times> world" where
  "getCachedResults e query w =
     (case getCachedResults_try e query w of
        (Inl err, w') \<Rightarrow> (Inr None, w')
      | (Inr r, w') \<Rightarrow> (Inr r, w'))"

definition cacheResults_try ::
  "env \<Rightarrow> string \<Rightarrow> SearchResult list \<Rightarrow> world \<Rightarrow> (error + unit) \<times> world" where
  "cacheResults_try e query rs w =
     (let expires = now_write e + cacheExpiry in
      if upsert_fails e then (Inl StoreError, w)
      else (Inr (),
            w\<lparr>searchCache := (searchCache w)(toLowerCase (js e) query \<mapsto>
                 \<lparr>results = rs, expiresAt = expires\<rparr>)\<rparr>))"

text \<open>\<^verbatim>\<open>cacheResults\<close>: the \<^verbatim>\<open>catch\<close> swallows every error.\<close>

definition cacheResults ::
  "env \<Rightarrow> string \<Rightarrow> SearchResult list \<Rightarrow> world \<Rightarrow> (error + unit) \<times> world" where
  "cacheResults e query rs w =
     (case cacheResults_try e query rs w of
        (Inl err, w') \<Rightarrow> (Inr (), w')
      | (Inr u, w') \<Rightarrow> (Inr u, w'))"

section \<open>The providers\<close>

text \<open>\<^verbatim>\<open>attr('href') || ''\<close>\<close>

definition href_or_empty :: "block \<Rightarrow> string" where
  "href_or_empty element = (case href element of None \<Rightarrow> [] | Some h \<Rightarrow> h)"

text \<open>The test \<^verbatim>\<open>title && url && snippet\<close> of both loop bodies: none of the three is empty.\<close>

definition qualifies :: "block \<Rightarrow> bool" where
  "qualifies element =
     (trim (title_text element) \<noteq> [] \<and> href_or_empty element \<noteq> []
      \<and> trim (snippet_text element) \<noteq> [])"

subsection \<open>DuckDuckGo\<close>

text \<open>What the callback of \<^verbatim>\<open>$('.result').each\<close> pushes for one container, if anything.\<close>

definition ddg_block :: "block \<Rightarrow> SearchResult option" where
  "ddg_block element =
     (let title = trim (title_text element);
          url = href_or_empty element;
          snippet = trim (snippet_text element)
      in if title \<noteq> [] \<and> url \<noteq> [] \<and> snippet \<noteq> [] then
           Some \<lparr>title = title,
                 url = (if startsWith url ''//'' then ''https:'' @ url else url),
                 snippet = snippet,
                 source = Some ''DuckDuckGo''\<rparr>
         else None)"

text \<open>
  The iteration over the containers from \<open>index\<close> on; \<^verbatim>\<open>if (index >= maxResults) return false\<close>
  ends it.
\<close>

fun ddg_each :: "int \<Rightarrow> nat \<Rightarrow> block list \<Rightarrow> SearchResult list \<Rightarrow> SearchResult list" where
  "ddg_each maxResults index [] acc = acc"
| "ddg_each maxResults index (element # rest) acc =
     (if int index \<ge> maxResults then acc
      else
        (case ddg_block element of
           Some r \<Rightarrow> ddg_each maxResults (index + 1) rest (acc @ [r])
         | None \<Rightarrow> ddg_each maxResults (index + 1) rest acc))"

text \<open>The body of the \<^verbatim>\<open>try\<close> block of \<^verbatim>\<open>searchDuckDuckGo\<close>.\<close>

definition searchDuckDuckGo_try ::
  "env \<Rightarrow> string \<Rightarrow> int \<Rightarrow> world \<Rightarrow> (error + SearchResult list) \<times> world" where
  "searchDuckDuckGo_try e query maxResults w =
     (case encodeURIComponent query of
        Inl err \<Rightarrow> (Inl err, w)
      | Inr q \<Rightarrow>
          (let searchUrl = ''https://html.duckduckgo.com/html/?q='' @ q;
               w1 = w\<lparr>requested := requested w @ [searchUrl]\<rparr>
           in case fetch e searchUrl of
                Rejected \<Rightarrow> (Inl NetworkError, w1)
              | Response r \<Rightarrow>
                  if \<not> ok r then (Inl (RequestFailed (statusText r)), w1)
                  else
                    (case body r of
                       None \<Rightarrow> (Inl BodyError, w1)
                     | Some elements \<Rightarrow> (Inr (ddg_each maxResults 0 elements []), w1))))"

subsection \<open>Google (the fallback)\<close>

text \<open>
  \<^verbatim>\<open>href.match(/\/url\?q=([^&]+)/)\<close>: the first place in the text where \<^verbatim>\<open>/url?q=\<close> is
  followed by at least one character other than \<^verbatim>\<open>&\<close>; the group is the longest run of such
  characters there.
\<close>

fun match_url_q :: "string \<Rightarrow> string option" where
  "match_url_q [] = None"
| "match_url_q (c # cs) =
     (let captured = takeWhile (\<lambda>x. x \<noteq> CHR ''&'') (drop 7 (c # cs))
      in if startsWith (c # cs) ''/url?q='' \<and> captured \<noteq> [] then Some captured
         else match_url_q cs)"

text \<open>The clean-up of Google's redirect URLs; \<^verbatim>\<open>decodeURIComponent\<close> may raise.\<close>

definition cleanUrl :: "string \<Rightarrow> error + string" where
  "cleanUrl h =
     (if startsWith h ''/url?q='' then
        (case match_url_q h of
           Some captured \<Rightarrow> decodeURIComponent captured
         | None \<Rightarrow> Inr h)
      else Inr h)"

text \<open>
  What the callback of \<^verbatim>\<open>$('div.g').each\<close> pushes for one container, if anything; an
  exception inside the callback leaves the loop and the results collected so far behind.
\<close>

definition google_block :: "block \<Rightarrow> error + SearchResult option" where
  "google_block element =
     (let title = trim (title_text element);
          h = href_or_empty element;
          snippet = trim (snippet_text element)
      in if title \<noteq> [] \<and> h \<noteq> [] \<and> snippet \<noteq> [] then
           (case cleanUrl h of
              Inl err \<Rightarrow> Inl err
            | Inr u \<Rightarrow>
                Inr (Some \<lparr>title = title, url = u, snippet = snippet,
                           source = Some ''Google''\<rparr>))
         else Inr None)"

fun google_each ::
  "int \<Rightarrow> nat \<Rightarrow> block list \<Rightarrow> SearchResult list \<Rightarrow> error + SearchResult list" where
  "google_each maxResults index [] acc = Inr acc"
| "google_each maxResults index (element # rest) acc =
     (if int index \<ge> maxResults then Inr acc
      else
        (case google_block element of
           Inl err \<Rightarrow> Inl err
         | Inr (Some r) \<Rightarrow> google_each maxResults (index + 1) rest (acc @ [r])
         | Inr None \<Rightarrow> google_each maxResults (index + 1) rest acc))"

definition fallback_url :: "runtime \<Rightarrow> string \<Rightarrow> int \<Rightarrow> string" where
  "fallback_url rt query maxResults =
     (let searchTerms = join (split query)
      in ''https://www.google.com/search?q='' @ searchTerms @ ''&num=''
           @ number_text rt maxResults)"

text \<open>The body of the \<^verbatim>\<open>try\<close> block of \<^verbatim>\<open>fallbackSearch\<close>.\<close>

definition fallbackSearch_try ::
  "env \<Rightarrow> string \<Rightarrow> int \<Rightarrow> world \<Rightarrow> (error + SearchResult list) \<times> world" where
  "fallbackSearch_try e query maxResults w =
     (let searchUrl = fallback_url (js e) query maxResults;
          w1 = w\<lparr>requested := requested w @ [searchUrl]\<rparr>
      in case fetch e searchUrl of
           Rejected \<Rightarrow> (Inl NetworkError, w1)
         | Response r \<Rightarrow>
             if \<not> ok r then (Inr [], w1)
             else
               (case body r of
                  None \<Rightarrow> (Inl BodyError, w1)
                | Some elements \<Rightarrow> (google_each maxResults 0 elements [], w1)))"

text \<open>\<^verbatim>\<open>fallbackSearch\<close>: the \<^verbatim>\<open>catch\<close> answers every error with the empty list.\<close>

definition fallbackSearch ::
  "env \<Rightarrow> string \<Rightarrow> int \<Rightarrow> world \<Rightarrow> (error + SearchResult list) \<times> world" where
  "fallbackSearch e query maxResults w =
     (case fallbackSearch_try e query maxResults w of
        (Inl err, w') \<Rightarrow> (Inr [], w')
      | (Inr rs, w') \<Rightarrow> (Inr rs, w'))"

text \<open>\<^verbatim>\<open>searchDuckDuckGo\<close>: the \<^verbatim>\<open>catch\<close> hands over to \<^verbatim>\<open>fallbackSearch\<close>.\<close>

definition searchDuckDuckGo ::
  "env \<Rightarrow> string \<Rightarrow> int \<Rightarrow> world \<Rightarrow> (error + SearchResult list) \<times> world" where
  "searchDuckDuckGo e query maxResults w =
     (case searchDuckDuckGo_try e query maxResults w of
        (Inl err, w') \<Rightarrow> fallbackSearch e query maxResults w'
      | (Inr rs, w') \<Rightarrow> (Inr rs, w'))"

section \<open>\<^verbatim>\<open>search\<close>\<close>

text \<open>The body of the \<^verbatim>\<open>try\<close> block of \<^verbatim>\<open>search\<close>.\<close>

definition search_try ::
  "env \<Rightarrow> string \<Rightarrow> int \<Rightarrow> world \<Rightarrow> (error + SearchResult list) \<times> world" where
  "search_try e query maxResults w =
     (case getCachedResults e query w of
        (Inl err, w1) \<Rightarrow> (Inl err, w1)
      | (Inr (Some cached), w1) \<Rightarrow> (Inr cached, w1)
      | (Inr None, w1) \<Rightarrow>
          (case searchDuckDuckGo e query maxResults w1 of
             (Inl err, w2) \<Rightarrow> (Inl err, w2)
           | (Inr rs, w2) \<Rightarrow>
               (case cacheResults e query rs w2 of
                  (Inl err, w3) \<Rightarrow> (Inl err, w3)
                | (Inr u, w3) \<Rightarrow> (Inr rs, w3))))"

text \<open>\<^verbatim>\<open>search\<close>: the \<^verbatim>\<open>catch\<close> answers every error with the empty list.\<close>

definition search ::
  "env \<Rightarrow> string \<Rightarrow> int \<Rightarrow> world \<Rightarrow> (error + SearchResult list) \<times> world" where
  "search e query maxResults w =
     (case search_try e query maxResults w of
        (Inl err, w') \<Rightarrow> (Inr [], w')
      | (Inr rs, w') \<Rightarrow> (Inr rs, w'))"

section \<open>Concrete scenarios\<close>

text \<open>
  The runtime of the scenarios. Its case table covers the letters of Basic Latin and of the
  Latin-1 Supplement (U+00C0 to U+00DE without U+00D7, in UTF-8 the byte 0xC3 followed by
  0x80 to 0x9E without 0x97), which are all the letters the scenarios use; no scenario
  prints a large number.
\<close>

fun latin1_lower :: "string \<Rightarrow> string" where
  "latin1_lower [] = []"
| "latin1_lower [a] = [lower_char a]"
| "latin1_lower (a # b # cs) =
     (if a = CHR 0xC3 \<and> (of_char b :: nat) \<in> {0x80..0x9E} - {0x97} then
        a # char_of (of_char b + (0x20 :: nat)) # latin1_lower cs
      else lower_char a # latin1_lower (b # cs))"

definition runtime_latin1 :: runtime where
  "runtime_latin1 = \<lparr>unicode_lower = latin1_lower, large_number_text = (\<lambda>i. [])\<rparr>"

text \<open>The words \<^verbatim>\<open>CAFE\<close> and \<^verbatim>\<open>cafe\<close> with an acute accent on the last letter.\<close>

definition cafe_upper :: string where
  "cafe_upper = ''CAF'' @ [CHR 0xC3, CHR 0x89]"

definition cafe_lower :: string where
  "cafe_lower = ''caf'' @ [CHR 0xC3, CHR 0xA9]"

text \<open>An empty cache table and no request made yet.\<close>

definition world_empty :: world where
  "world_empty = \<lparr>searchCache = Map.empty, requested = []\<rparr>"

text \<open>Three DuckDuckGo containers; the first has a snippet of blanks only.\<close>

definition block_nosnippet :: block where
  "block_nosnippet = \<lparr>title_text = ''Rust'', href = Some ''https://www.rust-lang.org/'',
     snippet_text = ''  ''\<rparr>"

definition block_book :: block where
  "block_book = \<lparr>title_text = '' The Rust Book '',
     href = Some ''//doc.rust-lang.org/book/'', snippet_text = ''Ownership explained''\<rparr>"

definition block_example :: block where
  "block_example = \<lparr>title_text = ''Rust by Example'',
     href = Some ''https://doc.rust-lang.org/rust-by-example/'',
     snippet_text = ''Learn by examples''\<rparr>"

definition page_ddg :: "block list" where
  "page_ddg = [block_nosnippet, block_book, block_example]"

definition result_book :: SearchResult where
  "result_book = \<lparr>title = ''The Rust Book'', url = ''https://doc.rust-lang.org/book/'',
     snippet = ''Ownership explained'', source = Some ''DuckDuckGo''\<rparr>"

definition result_example :: SearchResult where
  "result_example = \<lparr>title = ''Rust by Example'',
     url = ''https://doc.rust-lang.org/rust-by-example/'',
     snippet = ''Learn by examples'', source = Some ''DuckDuckGo''\<rparr>"

text \<open>Two Google containers: a redirect wrapper and a protocol-relative link.\<close>

definition block_wrapped :: block where
  "block_wrapped = \<lparr>title_text = ''Example'',
     href = Some ''/url?q=https%3A%2F%2Fexample.com%2Fx&sa=U'',
     snippet_text = ''An example''\<rparr>"

definition block_relative :: block where
  "block_relative = \<lparr>title_text = ''Relative'', href = Some ''//example.com/x'',
     snippet_text = ''Protocol-relative''\<rparr>"

definition page_google :: "block list" where
  "page_google = [block_wrapped, block_relative]"

definition result_wrapped :: SearchResult where
  "result_wrapped = \<lparr>title = ''Example'', url = ''https://example.com/x'',
     snippet = ''An example'', source = Some ''Google''\<rparr>"

definition result_relative :: SearchResult where
  "result_relative = \<lparr>title = ''Relative'', url = ''//example.com/x'',
     snippet = ''Protocol-relative'', source = Some ''Google''\<rparr>"

text \<open>No network: every request is rejected. The store answers.\<close>

definition env_offline :: env where
  "env_offline = \<lparr>js = runtime_latin1, fetch = (\<lambda>u. Rejected),
     now_read = 1000, now_write = 2000,
     findUnique_fails = False, delete_fails = False, upsert_fails = False\<rparr>"

text \<open>DuckDuckGo answers the query \<^verbatim>\<open>rust\<close> with \<open>page_ddg\<close>; nothing else is reachable.\<close>

definition env_online :: env where
  "env_online = \<lparr>js = runtime_latin1,
     fetch = (\<lambda>u. if u = ''https://html.duckduckgo.com/html/?q=rust''
        then Response \<lparr>ok = True, statusText = ''OK'', body = Some page_ddg\<rparr>
        else Rejected),
     now_read = 1000, now_write = 2000,
     findUnique_fails = False, delete_fails = False, upsert_fails = False\<rparr>"

text \<open>Only Google answers, with \<open>page_google\<close>.\<close>

definition env_fallback :: env where
  "env_fallback = \<lparr>js = runtime_latin1,
     fetch = (\<lambda>u. if u = ''https://www.google.com/search?q=rust&num=5''
        then Response \<lparr>ok = True, statusText = ''OK'', body = Some page_google\<rparr>
        else Rejected),
     now_read = 1000, now_write = 2000,
     findUnique_fails = False, delete_fails = False, upsert_fails = False\<rparr>"

text \<open>Every request is answered with status 503.\<close>

definition env_503 :: env where
  "env_503 = \<lparr>js = runtime_latin1,
     fetch = (\<lambda>u. Response \<lparr>ok = False, statusText = ''Service Unavailable'',
        body = None\<rparr>),
     now_read = 1000, now_write = 2000,
     findUnique_fails = False, delete_fails = False, upsert_fails = False\<rparr>"

text \<open>Every request is answered with a page whose only container does not qualify.\<close>

definition env_blank :: env where
  "env_blank = \<lparr>js = runtime_latin1,
     fetch = (\<lambda>u. Response \<lparr>ok = True, statusText = ''OK'',
        body = Some [block_nosnippet]\<rparr>),
     now_read = 1000, now_write = 2000,
     findUnique_fails = False, delete_fails = False, upsert_fails = False\<rparr>"

text \<open>A cache holding one entry for \<^verbatim>\<open>rust\<close>: expired at time 1000, or still valid then.\<close>

definition entry_stale :: CacheEntry where
  "entry_stale = \<lparr>results = [result_book], expiresAt = 500\<rparr>"

definition entry_fresh :: CacheEntry where
  "entry_fresh = \<lparr>results = [result_book, result_example], expiresAt = 5000\<rparr>"

definition world_stale :: world where
  "world_stale = \<lparr>searchCache = [''rust'' \<mapsto> entry_stale], requested = []\<rparr>"

definition world_fresh :: world where
  "world_fresh = \<lparr>searchCache = [''rust'' \<mapsto> entry_fresh], requested = []\<rparr>"

text \<open>The state after \<^verbatim>\<open>search('rust', 5)\<close> in \<open>env_online\<close>, started from \<open>world_empty\<close>.\<close>

definition world_rust :: world where
  "world_rust = \<lparr>searchCache = [''rust'' \<mapsto>
       \<lparr>results = [result_book, result_example], expiresAt = 86402000\<rparr>],
     requested = [''https://html.duckduckgo.com/html/?q=rust'']\<rparr>"

section \<open>Every function with a \<^verbatim>\<open>catch\<close> returns\<close>

lemma getCachedResults_total:
  "\<exists>r w'. getCachedResults e query w = (Inr r, w')"
  by (cases "getCachedResults_try e query w")
     (auto simp: getCachedResults_def split: sum.splits)

lemma cacheResults_total:
  "\<exists>w'. cacheResults e query rs w = (Inr (), w')"
  by (cases "cacheResults_try e query rs w")
     (auto simp: cacheResults_def split: sum.splits)

lemma fallbackSearch_total:
  "\<exists>rs w'. fallbackSearch e query maxResults w = (Inr rs, w')"
  by (cases "fallbackSearch_try e query maxResults w")
     (auto simp: fallbackSearch_def split: sum.splits)

lemma searchDuckDuckGo_total:
  "\<exists>rs w'. searchDuckDuckGo e query maxResults w = (Inr rs, w')"
  using fallbackSearch_total
  by (cases "searchDuckDuckGo_try e query maxResults w")
     (auto simp: searchDuckDuckGo_def split: sum.splits)

lemma search_total:
  "\<exists>rs w'. search e query maxResults w = (Inr rs, w')"
  by (cases "search_try e query maxResults w")
     (auto simp: search_def split: sum.splits)

section \<open>What each function does to the state\<close>

lemma fallbackSearch_world:
  "snd (fallbackSearch e query maxResults w)
     = w\<lparr>requested := requested w @ [fallback_url (js e) query maxResults]\<rparr>"
  by (auto simp: fallbackSearch_def fallbackSearch_try_def Let_def
           split: fetched.splits option.splits sum.splits)

lemma searchDuckDuckGo_try_cache:
  "searchCache (snd (searchDuckDuckGo_try e query maxResults w)) = searchCache w"
  by (auto simp: searchDuckDuckGo_try_def Let_def
           split: fetched.splits option.splits sum.splits)

lemma searchDuckDuckGo_try_requested:
  "\<exists>us. requested (snd (searchDuckDuckGo_try e query maxResults w)) = requested w @ us"
  by (auto simp: searchDuckDuckGo_try_def Let_def
           split: fetched.splits option.splits sum.splits)

lemma searchDuckDuckGo_try_ok_requested:
  "searchDuckDuckGo_try e query maxResults w = (Inr rs, w') \<Longrightarrow>
   \<exists>u. requested w' = requested w @ [u]"
  by (auto simp: searchDuckDuckGo_try_def Let_def
           split: fetched.splits option.splits sum.splits if_splits)

lemma searchDuckDuckGo_cache:
  "searchCache (snd (searchDuckDuckGo e query maxResults w)) = searchCache w"
proof (cases "searchDuckDuckGo_try e query maxResults w")
  case (Pair r w')
  with searchDuckDuckGo_try_cache [of e query maxResults w]
  show ?thesis
    by (cases r) (simp_all add: searchDuckDuckGo_def fallbackSearch_world)
qed

text \<open>A call of \<^verbatim>\<open>searchDuckDuckGo\<close> always issues at least one request.\<close>

lemma searchDuckDuckGo_requested:
  "\<exists>u us. requested (snd (searchDuckDuckGo e query maxResults w)) = requested w @ u # us"
proof (cases "searchDuckDuckGo_try e query maxResults w")
  case (Pair r w')
  show ?thesis
  proof (cases r)
    case (Inl err)
    from searchDuckDuckGo_try_requested [of e query maxResults w] Pair
    obtain us where "requested w' = requested w @ us" by auto
    with Pair Inl show ?thesis
      by (cases us) (simp_all add: searchDuckDuckGo_def fallbackSearch_world)
  next
    case (Inr rs)
    with Pair searchDuckDuckGo_try_ok_requested [of e query maxResults w rs w']
    show ?thesis by (auto simp: searchDuckDuckGo_def)
  qed
qed

lemma cacheResults_requested:
  "requested (snd (cacheResults e query rs w)) = requested w"
  by (simp add: cacheResults_def cacheResults_try_def Let_def)

lemma getCachedResults_requested:
  "requested (snd (getCachedResults e query w)) = requested w"
  by (simp add: getCachedResults_def getCachedResults_try_def split: option.splits)

text \<open>After a miss, \<^verbatim>\<open>search\<close> is the provider's answer followed by the cache write.\<close>

lemma search_miss:
  assumes "getCachedResults e query w = (Inr None, w1)"
      and "searchDuckDuckGo e query maxResults w1 = (Inr rs, w2)"
  shows "search e query maxResults w = (Inr rs, snd (cacheResults e query rs w2))"
  using assms cacheResults_total [of e query rs w2]
  by (auto simp: search_def search_try_def)

text \<open>On a hit, \<^verbatim>\<open>search\<close> is the stored list and the state is left as it was.\<close>

lemma search_hit:
  assumes "searchCache w (toLowerCase (js e) query) = Some c"
      and "now_read e < expiresAt c"
      and "\<not> findUnique_fails e"
  shows "search e query maxResults w = (Inr (results c), w)"
  using assms
  by (simp add: search_def search_try_def getCachedResults_def getCachedResults_try_def)

lemma lower_key_read:
  "toLowerCase (js e) q1 = toLowerCase (js e) q2 \<Longrightarrow>
   getCachedResults e q1 w = getCachedResults e q2 w"
  by (simp add: getCachedResults_def getCachedResults_try_def split: option.splits)

lemma lower_key_write:
  "toLowerCase (js e) q1 = toLowerCase (js e) q2 \<Longrightarrow>
   cacheResults e q1 rs w = cacheResults e q2 rs w"
  by (simp add: cacheResults_def cacheResults_try_def Let_def)

text \<open>A call touches no slot but the one of its own key.\<close>

lemma getCachedResults_other_slot:
  "k \<noteq> toLowerCase (js e) query \<Longrightarrow>
   searchCache (snd (getCachedResults e query w)) k = searchCache w k"
  by (simp add: getCachedResults_def getCachedResults_try_def split: option.splits)

lemma cacheResults_other_slot:
  "k \<noteq> toLowerCase (js e) query \<Longrightarrow>
   searchCache (snd (cacheResults e query rs w)) k = searchCache w k"
  by (simp add: cacheResults_def cacheResults_try_def Let_def)

lemma search_other_slot:
  assumes "k \<noteq> toLowerCase (js e) query"
  shows "searchCache (snd (search e query maxResults w)) k = searchCache w k"
proof -
  obtain r w1 where g: "getCachedResults e query w = (Inr r, w1)"
    using getCachedResults_total by blast
  with getCachedResults_other_slot [OF assms, of w]
  have w1: "searchCache w1 k = searchCache w k" by simp
  show ?thesis
  proof (cases r)
    case (Some cached)
    with g w1 show ?thesis by (simp add: search_def search_try_def)
  next
    case None
    obtain rs w2 where p: "searchDuckDuckGo e query maxResults w1 = (Inr rs, w2)"
      using searchDuckDuckGo_total by blast
    with searchDuckDuckGo_cache [of e query maxResults w1]
    have "searchCache w2 = searchCache w1" by simp
    with None g p w1 cacheResults_other_slot [OF assms, of rs w2] show ?thesis
      by (simp add: search_miss [of e query w w1 maxResults rs w2])
  qed
qed

text \<open>In ASCII text, characters added before or after a query change its lower-case form.\<close>

lemma ascii_padding_key:
  assumes "list_all ascii (a @ q @ b)" and "a \<noteq> [] \<or> b \<noteq> []"
  shows "toLowerCase rt (a @ q @ b) \<noteq> toLowerCase rt q"
proof -
  from assms(1) have "list_all ascii q" by simp
  with assms(1) have
    "length (toLowerCase rt (a @ q @ b)) = length a + length q + length b"
    "length (toLowerCase rt q) = length q"
    by (simp_all add: toLowerCase_def)
  with assms(2) show ?thesis by auto
qed

section \<open>The extraction loops\<close>

lemma ddg_block_None: "ddg_block b = None \<longleftrightarrow> \<not> qualifies b"
  by (auto simp: ddg_block_def qualifies_def Let_def)

lemma google_block_None: "\<not> qualifies b \<Longrightarrow> google_block b = Inr None"
  by (auto simp: google_block_def qualifies_def Let_def)

lemma google_block_Some: "google_block b = Inr (Some r) \<Longrightarrow> qualifies b"
  by (auto simp: google_block_def qualifies_def Let_def split: if_splits)

text \<open>
  Started at \<open>index\<close>, the loop looks at the next \<open>maxResults - index\<close> containers and appends,
  in order, what the callback pushes for those that qualify.
\<close>

lemma ddg_each_scans:
  "\<exists>rs. ddg_each n i els acc = acc @ rs
     \<and> list_all2 (\<lambda>b r. ddg_block b = Some r)
          (filter qualifies (take (nat (n - int i)) els)) rs"
proof (induction els arbitrary: i acc)
  case Nil
  then show ?case by simp
next
  case (Cons element rest)
  show ?case
  proof (cases "int i \<ge> n")
    case True
    then show ?thesis by simp
  next
    case False
    then have k: "nat (n - int i) = Suc (nat (n - int (i + 1)))" by simp
    show ?thesis
    proof (cases "ddg_block element")
      case None
      then have nq: "\<not> qualifies element" by (simp add: ddg_block_None)
      from False None nq Cons.IH [of "i + 1" acc] show ?thesis
        by (simp add: k del: of_nat_add of_nat_Suc)
    next
      case (Some r)
      then have q: "qualifies element" using ddg_block_None [of element] by simp
      from Cons.IH [of "i + 1" "acc @ [r]"] obtain rs where
        "ddg_each n (i + 1) rest (acc @ [r]) = (acc @ [r]) @ rs"
        "list_all2 (\<lambda>b r. ddg_block b = Some r)
          (filter qualifies (take (nat (n - int (i + 1))) rest)) rs"
        by blast
      with False Some q show ?thesis
        by (simp add: k del: of_nat_add of_nat_Suc)
    qed
  qed
qed

lemma google_each_scans:
  "google_each n i els acc = Inr out \<Longrightarrow>
   \<exists>rs. out = acc @ rs
     \<and> list_all2 (\<lambda>b r. google_block b = Inr (Some r))
          (filter qualifies (take (nat (n - int i)) els)) rs"
proof (induction els arbitrary: i acc)
  case Nil
  then show ?case by simp
next
  case (Cons element rest)
  show ?case
  proof (cases "int i \<ge> n")
    case True
    with Cons.prems show ?thesis by simp
  next
    case False
    then have k: "nat (n - int i) = Suc (nat (n - int (i + 1)))" by simp
    show ?thesis
    proof (cases "google_block element")
      case (Inl err)
      with False Cons.prems show ?thesis by simp
    next
      case (Inr pushed)
      show ?thesis
      proof (cases pushed)
        case None
        with Inr have nq: "\<not> qualifies element"
          by (auto simp: google_block_def qualifies_def Let_def split: if_splits sum.splits)
        from None Inr False Cons.prems
        have "google_each n (i + 1) rest acc = Inr out" by simp
        from Cons.IH [OF this] nq show ?thesis
          by (simp add: k del: of_nat_add of_nat_Suc)
      next
        case (Some r)
        with Inr have q: "qualifies element" using google_block_Some by simp
        from Some Inr False Cons.prems
        have "google_each n (i + 1) rest (acc @ [r]) = Inr out" by simp
        from Cons.IH [OF this] obtain rs where
          "out = (acc @ [r]) @ rs"
          "list_all2 (\<lambda>b r. google_block b = Inr (Some r))
             (filter qualifies (take (nat (n - int (i + 1))) rest)) rs"
          by blast
        with q Inr Some show ?thesis
          by (simp add: k del: of_nat_add of_nat_Suc)
      qed
    qed
  qed
qed

lemma ddg_each_none:
  "\<forall>b \<in> set (take (nat n) els). \<not> qualifies b \<Longrightarrow> ddg_each n 0 els [] = []"
  using ddg_each_scans [of n 0 els "[]"]
  by (auto simp: filter_False)

lemma google_each_none:
  "\<forall>b \<in> set els. \<not> qualifies b \<Longrightarrow> google_each n i els acc = Inr acc"
  by (induction els arbitrary: i) (auto simp: google_block_None)

lemma list_all2_right:
  "list_all2 P xs ys \<Longrightarrow> y \<in> set ys \<Longrightarrow> \<exists>x. P x y"
  by (auto simp: list_all2_conv_all_nth in_set_conv_nth)

section \<open>The URL of a result\<close>

lemma decode_nonempty:
  "decodeURIComponent s = Inr t \<Longrightarrow> s \<noteq> [] \<Longrightarrow> t \<noteq> []"
  by (cases s) (auto split: if_splits option.splits sum.splits)

lemma match_url_q_nonempty: "match_url_q h = Some t \<Longrightarrow> t \<noteq> []"
  by (induction h) (auto simp: Let_def split: if_splits)

lemma match_url_q_wrapper:
  assumes "t \<noteq> []" and "CHR ''&'' \<notin> set t" and "rest = [] \<or> hd rest = CHR ''&''"
  shows "match_url_q (''/url?q='' @ t @ rest) = Some t"
proof -
  have "takeWhile (\<lambda>x. x \<noteq> CHR ''&'') (t @ rest)
          = t @ takeWhile (\<lambda>x. x \<noteq> CHR ''&'') rest"
    using assms(2) by (induction t) auto
  with assms(3) have "takeWhile (\<lambda>x. x \<noteq> CHR ''&'') (t @ rest) = t"
    by (cases rest) auto
  with assms(1) show ?thesis
    by (simp add: startsWith_def Let_def)
qed

lemma cleanUrl_nonempty: "cleanUrl h = Inr u \<Longrightarrow> h \<noteq> [] \<Longrightarrow> u \<noteq> []"
  by (auto simp: cleanUrl_def split: if_splits option.splits
           dest: match_url_q_nonempty decode_nonempty)

lemma ddg_block_fields:
  "ddg_block b = Some r \<Longrightarrow> title r \<noteq> [] \<and> url r \<noteq> [] \<and> snippet r \<noteq> []"
  by (auto simp: ddg_block_def Let_def split: if_splits)

lemma google_block_fields:
  "google_block b = Inr (Some r) \<Longrightarrow> title r \<noteq> [] \<and> url r \<noteq> [] \<and> snippet r \<noteq> []"
  by (auto simp: google_block_def Let_def split: if_splits sum.splits
           dest: cleanUrl_nonempty)

lemma ddg_each_fields:
  "r \<in> set (ddg_each n 0 els []) \<Longrightarrow> title r \<noteq> [] \<and> url r \<noteq> [] \<and> snippet r \<noteq> []"
  using ddg_each_scans [of n 0 els "[]"]
  by (auto dest!: list_all2_right dest: ddg_block_fields)

lemma google_each_fields:
  "google_each n 0 els [] = Inr rs \<Longrightarrow> r \<in> set rs \<Longrightarrow>
   title r \<noteq> [] \<and> url r \<noteq> [] \<and> snippet r \<noteq> []"
  using google_each_scans [of n 0 els "[]" rs]
  by (auto dest!: list_all2_right dest: google_block_fields)

lemma searchDuckDuckGo_try_fields:
  "fst (searchDuckDuckGo_try e query n w) = Inr rs \<Longrightarrow> r \<in> set rs \<Longrightarrow>
   title r \<noteq> [] \<and> url r \<noteq> [] \<and> snippet r \<noteq> []"
  by (auto simp: searchDuckDuckGo_try_def Let_def
           split: sum.splits fetched.splits if_splits option.splits
           dest: ddg_each_fields)

lemma fallbackSearch_fields:
  "fst (fallbackSearch e query n w) = Inr rs \<Longrightarrow> r \<in> set rs \<Longrightarrow>
   title r \<noteq> [] \<and> url r \<noteq> [] \<and> snippet r \<noteq> []"
  by (auto simp: fallbackSearch_def fallbackSearch_try_def Let_def
           split: sum.splits fetched.splits if_splits option.splits
           dest: google_each_fields)

section \<open>The scenarios, evaluated\<close>

lemma encode_rust: "encodeURIComponent ''rust'' = Inr ''rust''"
  by code_simp

lemma encode_sp_rust: "encodeURIComponent '' rust'' = Inr ''%20rust''"
  by code_simp

lemma scenario_runtime:
  "js env_offline = runtime_latin1" "js env_online = runtime_latin1"
  "js env_fallback = runtime_latin1" "js env_503 = runtime_latin1"
  "js env_blank = runtime_latin1"
  by (simp_all add: env_offline_def env_online_def env_fallback_def env_503_def
      env_blank_def)

lemma lower_Rust: "toLowerCase runtime_latin1 ''Rust'' = ''rust''"
  by code_simp

lemma lower_RUST: "toLowerCase runtime_latin1 ''RUST'' = ''rust''"
  by code_simp

lemma lower_rust: "toLowerCase runtime_latin1 ''rust'' = ''rust''"
  by code_simp

lemma lower_sp_rust: "toLowerCase runtime_latin1 '' rust'' = '' rust''"
  by code_simp

lemma lower_cafe_upper: "toLowerCase runtime_latin1 cafe_upper = cafe_lower"
  by code_simp

lemma lower_cafe_lower: "toLowerCase runtime_latin1 cafe_lower = cafe_lower"
  by code_simp

lemma url_rust5:
  "fallback_url runtime_latin1 ''rust'' 5 = ''https://www.google.com/search?q=rust&num=5''"
  by code_simp

lemma url_sp_rust5:
  "fallback_url runtime_latin1 '' rust'' 5 = ''https://www.google.com/search?q=+rust&num=5''"
  by code_simp

lemma each_ddg5: "ddg_each 5 0 page_ddg [] = [result_book, result_example]"
  by code_simp

lemma each_google5: "google_each 5 0 page_google [] = Inr [result_wrapped, result_relative]"
  by code_simp

lemma unqualified_nosnippet: "\<not> qualifies block_nosnippet"
  by code_simp

lemma miss_offline: "getCachedResults env_offline ''rust'' world_empty = (Inr None, world_empty)"
  by (simp add: getCachedResults_def getCachedResults_try_def env_offline_def
      world_empty_def)

lemma try_offline:
  "searchDuckDuckGo_try env_offline ''rust'' 5 world_empty
     = (Inl NetworkError,
        world_empty\<lparr>requested := [''https://html.duckduckgo.com/html/?q=rust'']\<rparr>)"
  by (simp add: searchDuckDuckGo_try_def encode_rust env_offline_def world_empty_def)

lemma miss_online: "getCachedResults env_online ''rust'' world_empty = (Inr None, world_empty)"
  by (simp add: getCachedResults_def getCachedResults_try_def env_online_def
      world_empty_def)

lemma try_online:
  "searchDuckDuckGo_try env_online ''rust'' 5 world_empty
    = (Inr [result_book, result_example],
       world_empty\<lparr>requested := [''https://html.duckduckgo.com/html/?q=rust'']\<rparr>)"
  by (simp add: searchDuckDuckGo_try_def encode_rust env_online_def world_empty_def
      each_ddg5)

lemma search_online:
  "search env_online ''rust'' 5 world_empty = (Inr [result_book, result_example], world_rust)"
proof -
  have p: "searchDuckDuckGo env_online ''rust'' 5 world_empty
    = (Inr [result_book, result_example],
       world_empty\<lparr>requested := [''https://html.duckduckgo.com/html/?q=rust'']\<rparr>)"
    by (simp add: searchDuckDuckGo_def try_online)
  show ?thesis
    unfolding search_miss [OF miss_online p]
    by (simp add: cacheResults_def cacheResults_try_def cacheExpiry_def lower_rust
        env_online_def world_empty_def world_rust_def)
qed

section \<open>The claims\<close>

text \<open>
  C1. \<^verbatim>\<open>search\<close> never hands an error to its caller: for every query, every \<^verbatim>\<open>maxResults\<close>,
  every state of the cache and every behaviour of the network and the store, it returns a
  list. When the cache misses, the DuckDuckGo attempt raises and the Google attempt fails too
  (it raises, or its response is not \<^verbatim>\<open>ok\<close>), the list is empty.
\<close>

theorem search_never_raises:
  "(\<exists>rs w'. search e query maxResults w = (Inr rs, w'))
   \<and> (getCachedResults e query w = (Inr None, w1)
        \<and> searchDuckDuckGo_try e query maxResults w1 = (Inl err, w2)
        \<and> (fst (fallbackSearch_try e query maxResults w2) = Inl err'
             \<or> (\<exists>r. fetch e (fallback_url (js e) query maxResults) = Response r \<and> \<not> ok r))
      \<longrightarrow> fst (search e query maxResults w) = Inr [])"
proof (intro conjI impI)
  show "\<exists>rs w'. search e query maxResults w = (Inr rs, w')"
    by (rule search_total)
next
  assume a: "getCachedResults e query w = (Inr None, w1)
        \<and> searchDuckDuckGo_try e query maxResults w1 = (Inl err, w2)
        \<and> (fst (fallbackSearch_try e query maxResults w2) = Inl err'
             \<or> (\<exists>r. fetch e (fallback_url (js e) query maxResults) = Response r \<and> \<not> ok r))"
  then have "fst (fallbackSearch_try e query maxResults w2) = Inl err'
     \<or> fst (fallbackSearch_try e query maxResults w2) = Inr []"
    by (auto simp: fallbackSearch_try_def Let_def)
  then have "fst (fallbackSearch e query maxResults w2) = Inr []"
    by (cases "fallbackSearch_try e query maxResults w2") (auto simp: fallbackSearch_def)
  with a have "fst (searchDuckDuckGo e query maxResults w1) = Inr []"
    by (simp add: searchDuckDuckGo_def)
  then obtain w3 where "searchDuckDuckGo e query maxResults w1 = (Inr [], w3)"
    by (cases "searchDuckDuckGo e query maxResults w1") auto
  with a show "fst (search e query maxResults w) = Inr []"
    using search_miss by simp
qed

theorem search_never_raises_witness:
  "getCachedResults env_offline ''rust'' world_empty = (Inr None, world_empty)
   \<and> searchDuckDuckGo_try env_offline ''rust'' 5 world_empty
       = (Inl NetworkError,
          world_empty\<lparr>requested := [''https://html.duckduckgo.com/html/?q=rust'']\<rparr>)
   \<and> fst (fallbackSearch_try env_offline ''rust'' 5
          (world_empty\<lparr>requested := [''https://html.duckduckgo.com/html/?q=rust'']\<rparr>))
       = Inl NetworkError
   \<and> fst (search env_offline ''rust'' 5 world_empty) = Inr []"
proof -
  have h3: "fst (fallbackSearch_try env_offline ''rust'' 5
          (world_empty\<lparr>requested := [''https://html.duckduckgo.com/html/?q=rust'']\<rparr>))
       = Inl NetworkError"
    by (simp add: fallbackSearch_try_def env_offline_def)
  from miss_offline try_offline h3 show ?thesis
    using search_never_raises [of env_offline "''rust''" 5 world_empty world_empty
        NetworkError
        "world_empty\<lparr>requested := [''https://html.duckduckgo.com/html/?q=rust'']\<rparr>"
        NetworkError]
    by simp
qed

text \<open>
  C2, as stated, fails. With \<^verbatim>\<open>maxResults = 2\<close> and a page of three containers of which the
  first lacks a snippet and the other two qualify, two qualifying containers are present, yet
  the loop returns one result: the guard \<^verbatim>\<open>index >= maxResults\<close> counts the containers
  looked at, so the malformed first one uses up one of the two places.
\<close>

theorem each_counts_scanned_blocks_counterexample:
  "2 \<le> length (filter qualifies page_ddg) \<and> ddg_each 2 0 page_ddg [] = [result_book]"
  by code_simp

text \<open>
  C2, amended. Each provider's loop looks at the first \<^verbatim>\<open>maxResults\<close> containers of the page
  and no further. What it returns corresponds one to one, in document order, to the
  containers among those first \<^verbatim>\<open>maxResults\<close> that have a non-empty title, href and snippet:
  it has exactly as many elements as qualify there (so at most \<^verbatim>\<open>maxResults\<close>). For Google
  this holds whenever the loop completes, that is, no href fails to decode.
\<close>

theorem each_scans_first_maxResults_blocks:
  "list_all2 (\<lambda>b r. ddg_block b = Some r)
      (filter qualifies (take (nat maxResults) elements))
      (ddg_each maxResults 0 elements [])
   \<and> length (ddg_each maxResults 0 elements [])
       = length (filter qualifies (take (nat maxResults) elements))
   \<and> (google_each maxResults 0 elements [] = Inr rs \<longrightarrow>
        list_all2 (\<lambda>b r. google_block b = Inr (Some r))
          (filter qualifies (take (nat maxResults) elements)) rs
        \<and> length rs = length (filter qualifies (take (nat maxResults) elements)))"
proof -
  from ddg_each_scans [of maxResults 0 elements "[]"]
  have d: "list_all2 (\<lambda>b r. ddg_block b = Some r)
      (filter qualifies (take (nat maxResults) elements))
      (ddg_each maxResults 0 elements [])"
    by auto
  have g: "list_all2 (\<lambda>b r. google_block b = Inr (Some r))
          (filter qualifies (take (nat maxResults) elements)) rs"
    if "google_each maxResults 0 elements [] = Inr rs"
    using google_each_scans [OF that] by auto
  from d have dl: "length (ddg_each maxResults 0 elements [])
       = length (filter qualifies (take (nat maxResults) elements))"
    by (rule list_all2_lengthD [symmetric])
  have gl: "length rs = length (filter qualifies (take (nat maxResults) elements))"
    if "google_each maxResults 0 elements [] = Inr rs"
    using g [OF that] by (rule list_all2_lengthD [symmetric])
  from d dl g gl show ?thesis
    by blast
qed

theorem each_scans_first_maxResults_blocks_witness:
  "google_each 5 0 page_google [] = Inr [result_wrapped, result_relative]
   \<and> list_all2 (\<lambda>b r. google_block b = Inr (Some r))
        (filter qualifies (take (nat 5) page_google)) [result_wrapped, result_relative]
   \<and> length [result_wrapped, result_relative]
       = length (filter qualifies (take (nat 5) page_google))
   \<and> length (ddg_each 2 0 page_ddg []) = length (filter qualifies (take (nat 2) page_ddg))"
  using each_scans_first_maxResults_blocks [of 5 page_google "[result_wrapped, result_relative]"]
        each_scans_first_maxResults_blocks [of 2 page_ddg "[]"]
        each_google5
  by simp

text \<open>
  C3, as stated, fails. The key is the query in lower case; nothing trims it. After
  \<^verbatim>\<open>search('rust', 5)\<close> has filled the cache, \<^verbatim>\<open>search(' rust', 5)\<close> at the same time, a query
  that differs by one leading blank, misses the cache and requests both providers.
\<close>

theorem untrimmed_query_misses_counterexample:
  "requested (snd (search env_online ''rust'' 5 world_empty))
     = [''https://html.duckduckgo.com/html/?q=rust'']
   \<and> requested (snd (search env_online '' rust'' 5
         (snd (search env_online ''rust'' 5 world_empty))))
     = [''https://html.duckduckgo.com/html/?q=rust'',
        ''https://html.duckduckgo.com/html/?q=%20rust'',
        ''https://www.google.com/search?q=+rust&num=5'']"
proof -
  have m: "getCachedResults env_online '' rust'' world_rust = (Inr None, world_rust)"
    by (simp add: getCachedResults_def getCachedResults_try_def lower_sp_rust
        env_online_def world_rust_def)
  have p: "searchDuckDuckGo env_online '' rust'' 5 world_rust
     = (Inr [], world_rust\<lparr>requested := [''https://html.duckduckgo.com/html/?q=rust'',
        ''https://html.duckduckgo.com/html/?q=%20rust'',
        ''https://www.google.com/search?q=+rust&num=5'']\<rparr>)"
    by (simp add: searchDuckDuckGo_def searchDuckDuckGo_try_def encode_sp_rust
        fallbackSearch_def fallbackSearch_try_def url_sp_rust5 env_online_def
        world_rust_def)
  have s2: "requested (snd (search env_online '' rust'' 5 world_rust))
     = [''https://html.duckduckgo.com/html/?q=rust'',
        ''https://html.duckduckgo.com/html/?q=%20rust'',
        ''https://www.google.com/search?q=+rust&num=5'']"
    unfolding search_miss [OF m p]
    by (simp add: cacheResults_def cacheResults_try_def Let_def)
  from s2 show ?thesis
    by (simp add: search_online world_rust_def)
qed

text \<open>
  C3, amended. The cache read and the cache write both use the query in lower case
  (\<^verbatim>\<open>query.toLowerCase()\<close>, not trimmed) as the key: two queries that the runtime maps to
  the same lower-case text, that is, queries that differ only in letter case, read and
  write the same slot. If a call with the first query misses the cache and its write
  succeeds, a later call with the second query, made before the 24 hours are over and with
  the store answering, returns the same list and leaves the state as it is: it requests no
  provider. Surrounding whitespace is part of the key: in ASCII text, characters added
  before or after a query change its lower-case form; and a call whose key differs from the
  key of the call before it, and whose own slot was empty, misses the cache and requests a
  provider.
\<close>

theorem cache_key_is_lowercased_query:
  "(toLowerCase (js e) q1 = toLowerCase (js e) q2 \<longrightarrow>
      getCachedResults e q1 w = getCachedResults e q2 w
      \<and> cacheResults e q1 rs w = cacheResults e q2 rs w)
   \<and> (toLowerCase (js e1) q1 = toLowerCase (js e2) q2
        \<and> fst (getCachedResults e1 q1 w) = Inr None \<and> \<not> upsert_fails e1
        \<and> \<not> findUnique_fails e2 \<and> now_read e2 < now_write e1 + 24 * 60 * 60 * 1000 \<longrightarrow>
      search e2 q2 n2 (snd (search e1 q1 n1 w)) = search e1 q1 n1 w)
   \<and> (list_all ascii (a @ q @ b) \<and> (a \<noteq> [] \<or> b \<noteq> []) \<longrightarrow>
      toLowerCase (js e) (a @ q @ b) \<noteq> toLowerCase (js e) q)
   \<and> (toLowerCase (js e1) q1 \<noteq> toLowerCase (js e2) q2
        \<and> searchCache w (toLowerCase (js e2) q2) = None \<longrightarrow>
      fst (getCachedResults e2 q2 (snd (search e1 q1 n1 w))) = Inr None
      \<and> length (requested (snd (search e1 q1 n1 w)))
          < length (requested (snd (search e2 q2 n2 (snd (search e1 q1 n1 w))))))"
proof -
  have same: "getCachedResults e q1 w = getCachedResults e q2 w
      \<and> cacheResults e q1 rs w = cacheResults e q2 rs w"
    if "toLowerCase (js e) q1 = toLowerCase (js e) q2"
    using lower_key_read [OF that] lower_key_write [OF that] by simp
  have second: "search e2 q2 n2 (snd (search e1 q1 n1 w)) = search e1 q1 n1 w"
    if h: "toLowerCase (js e1) q1 = toLowerCase (js e2) q2
        \<and> fst (getCachedResults e1 q1 w) = Inr None \<and> \<not> upsert_fails e1
        \<and> \<not> findUnique_fails e2 \<and> now_read e2 < now_write e1 + 24 * 60 * 60 * 1000"
  proof -
    let ?w1 = "snd (getCachedResults e1 q1 w)"
    obtain rs' w2 where p: "searchDuckDuckGo e1 q1 n1 ?w1 = (Inr rs', w2)"
      using searchDuckDuckGo_total by blast
    from h have "getCachedResults e1 q1 w = (Inr None, ?w1)"
      by (cases "getCachedResults e1 q1 w") simp
    from search_miss [OF this p]
    have s: "search e1 q1 n1 w = (Inr rs', snd (cacheResults e1 q1 rs' w2))" .
    let ?w3 = "snd (cacheResults e1 q1 rs' w2)"
    from h have c: "searchCache ?w3 (toLowerCase (js e2) q2)
        = Some \<lparr>results = rs', expiresAt = now_write e1 + 24 * 60 * 60 * 1000\<rparr>"
      by (simp add: cacheResults_def cacheResults_try_def cacheExpiry_def)
    from h have "search e2 q2 n2 ?w3 = (Inr rs', ?w3)"
      using search_hit [OF c, of n2] by simp
    with s show ?thesis by simp
  qed
  have padded: "toLowerCase (js e) (a @ q @ b) \<noteq> toLowerCase (js e) q"
    if "list_all ascii (a @ q @ b) \<and> (a \<noteq> [] \<or> b \<noteq> [])"
    using that ascii_padding_key by blast
  have other: "fst (getCachedResults e2 q2 (snd (search e1 q1 n1 w))) = Inr None
      \<and> length (requested (snd (search e1 q1 n1 w)))
          < length (requested (snd (search e2 q2 n2 (snd (search e1 q1 n1 w)))))"
    if h: "toLowerCase (js e1) q1 \<noteq> toLowerCase (js e2) q2
        \<and> searchCache w (toLowerCase (js e2) q2) = None"
  proof -
    let ?w' = "snd (search e1 q1 n1 w)"
    from h have "toLowerCase (js e1) q1 \<noteq> toLowerCase (js e2) q2" by (rule conjunct1)
    then have "toLowerCase (js e2) q2 \<noteq> toLowerCase (js e1) q1" by (rule not_sym)
    from search_other_slot [OF this, of n1 w] h
    have empty: "searchCache ?w' (toLowerCase (js e2) q2) = None" by simp
    then have miss: "fst (getCachedResults e2 q2 ?w') = Inr None"
      by (simp add: getCachedResults_def getCachedResults_try_def)
    let ?w1 = "snd (getCachedResults e2 q2 ?w')"
    obtain rs' w2 where p: "searchDuckDuckGo e2 q2 n2 ?w1 = (Inr rs', w2)"
      using searchDuckDuckGo_total by blast
    from miss have "getCachedResults e2 q2 ?w' = (Inr None, ?w1)"
      by (cases "getCachedResults e2 q2 ?w'") simp
    from search_miss [OF this p]
    have s: "search e2 q2 n2 ?w' = (Inr rs', snd (cacheResults e2 q2 rs' w2))" .
    obtain u us where
      "requested (snd (searchDuckDuckGo e2 q2 n2 ?w1)) = requested ?w1 @ u # us"
      using searchDuckDuckGo_requested by blast
    with p have "length (requested ?w') < length (requested (snd (search e2 q2 n2 ?w')))"
      by (simp add: s cacheResults_requested getCachedResults_requested)
    with miss show ?thesis by simp
  qed
  from same second padded other show ?thesis
    by blast
qed

theorem cache_key_is_lowercased_query_witness:
  "toLowerCase (js env_online) ''RUST'' = toLowerCase (js env_online) ''rust''
   \<and> getCachedResults env_online ''RUST'' world_fresh
       = getCachedResults env_online ''rust'' world_fresh
   \<and> cacheResults env_online ''RUST'' [] world_fresh
       = cacheResults env_online ''rust'' [] world_fresh
   \<and> fst (getCachedResults env_online ''rust'' world_empty) = Inr None
   \<and> \<not> upsert_fails env_online \<and> \<not> findUnique_fails env_online
   \<and> now_read env_online < now_write env_online + 24 * 60 * 60 * 1000
   \<and> search env_online ''rust'' 5 world_empty = (Inr [result_book, result_example], world_rust)
   \<and> search env_online ''RUST'' 3 world_rust = (Inr [result_book, result_example], world_rust)
   \<and> toLowerCase (js env_online) cafe_upper = toLowerCase (js env_online) cafe_lower
   \<and> fst (getCachedResults env_online cafe_upper world_empty) = Inr None
   \<and> search env_online cafe_lower 5 (snd (search env_online cafe_upper 5 world_empty))
       = search env_online cafe_upper 5 world_empty
   \<and> list_all ascii ('' '' @ ''rust'' @ []) \<and> '' '' \<noteq> []
   \<and> toLowerCase (js env_online) ('' '' @ ''rust'' @ [])
       \<noteq> toLowerCase (js env_online) ''rust''
   \<and> searchCache world_empty (toLowerCase (js env_online) '' rust'') = None
   \<and> fst (getCachedResults env_online '' rust'' world_rust) = Inr None
   \<and> length (requested world_rust)
       < length (requested (snd (search env_online '' rust'' 5 world_rust)))"
proof -
  have k1: "toLowerCase (js env_online) ''RUST'' = toLowerCase (js env_online) ''rust''"
    by (simp add: scenario_runtime lower_RUST lower_rust)
  have k2: "toLowerCase (js env_online) ''rust'' = toLowerCase (js env_online) ''RUST''"
    using k1 by simp
  have k3: "toLowerCase (js env_online) cafe_upper = toLowerCase (js env_online) cafe_lower"
    by (simp add: scenario_runtime lower_cafe_upper lower_cafe_lower)
  have m1: "fst (getCachedResults env_online ''rust'' world_empty) = Inr None"
    by (simp add: miss_online)
  have m2: "fst (getCachedResults env_online cafe_upper world_empty) = Inr None"
    by (simp add: getCachedResults_def getCachedResults_try_def env_online_def
        world_empty_def)
  have f: "\<not> upsert_fails env_online \<and> \<not> findUnique_fails env_online
   \<and> now_read env_online < now_write env_online + 24 * 60 * 60 * 1000"
    by (simp add: env_online_def)
  have p1: "list_all ascii ('' '' @ ''rust'' @ [])"
    by code_simp
  have p2: "'' '' \<noteq> []"
    by simp
  have e: "searchCache world_empty (toLowerCase (js env_online) '' rust'') = None"
    by (simp add: world_empty_def)
  have d: "toLowerCase (js env_online) ''rust'' \<noteq> toLowerCase (js env_online) '' rust''"
    by (simp add: scenario_runtime lower_rust lower_sp_rust)
  have a1: "getCachedResults env_online ''RUST'' world_fresh
       = getCachedResults env_online ''rust'' world_fresh
   \<and> cacheResults env_online ''RUST'' [] world_fresh
       = cacheResults env_online ''rust'' [] world_fresh"
    using k1 cache_key_is_lowercased_query
            [where e = env_online and ?q1.0 = "''RUST''" and ?q2.0 = "''rust''"
               and w = world_fresh and rs = "[]"]
    by blast
  have a2: "search env_online ''RUST'' 3 (snd (search env_online ''rust'' 5 world_empty))
      = search env_online ''rust'' 5 world_empty"
    using k2 m1 f cache_key_is_lowercased_query
            [where ?e1.0 = env_online and ?e2.0 = env_online and ?q1.0 = "''rust''"
               and ?q2.0 = "''RUST''" and w = world_empty and ?n1.0 = 5 and ?n2.0 = 3]
    by blast
  have a3: "search env_online cafe_lower 5 (snd (search env_online cafe_upper 5 world_empty))
       = search env_online cafe_upper 5 world_empty"
    using k3 m2 f cache_key_is_lowercased_query
            [where ?e1.0 = env_online and ?e2.0 = env_online and ?q1.0 = cafe_upper
               and ?q2.0 = cafe_lower and w = world_empty and ?n1.0 = 5 and ?n2.0 = 5]
    by blast
  have a4: "toLowerCase (js env_online) ('' '' @ ''rust'' @ [])
       \<noteq> toLowerCase (js env_online) ''rust''"
    using p1 p2 cache_key_is_lowercased_query
            [where e = env_online and a = "'' ''" and q = "''rust''" and b = "[]"]
    by blast
  have a5: "fst (getCachedResults env_online '' rust''
                (snd (search env_online ''rust'' 5 world_empty))) = Inr None
      \<and> length (requested (snd (search env_online ''rust'' 5 world_empty)))
          < length (requested (snd (search env_online '' rust'' 5
                (snd (search env_online ''rust'' 5 world_empty)))))"
    using d e cache_key_is_lowercased_query
            [where ?e1.0 = env_online and ?e2.0 = env_online and ?q1.0 = "''rust''"
               and ?q2.0 = "'' rust''" and w = world_empty and ?n1.0 = 5 and ?n2.0 = 5]
    by blast
  from k1 m1 f k3 m2 p1 p2 e a1 a2 a3 a4 a5 show ?thesis
    by (simp add: search_online)
qed

text \<open>
  C4. If the entry stored under the key has its \<^verbatim>\<open>expiresAt\<close> in the past at read time (or
  equal to the read time), the read reports absent, whatever the store does; when the
  store's operations succeed, the read has deleted the entry. \<^verbatim>\<open>search\<close> then answers with
  what the providers give on the state left by the read, and has issued at least one
  request.
\<close>

theorem expired_entry_never_returned:
  assumes "searchCache w (toLowerCase (js e) query) = Some c"
      and "expiresAt c \<le> now_read e"
  shows "fst (getCachedResults e query w) = Inr None
     \<and> (\<not> findUnique_fails e \<and> \<not> delete_fails e \<longrightarrow>
          searchCache (snd (getCachedResults e query w)) (toLowerCase (js e) query) = None)
     \<and> fst (search e query maxResults w)
         = fst (searchDuckDuckGo e query maxResults (snd (getCachedResults e query w)))
     \<and> length (requested w) < length (requested (snd (search e query maxResults w)))"
proof -
  have miss: "fst (getCachedResults e query w) = Inr None"
    using assms by (simp add: getCachedResults_def getCachedResults_try_def)
  have del: "\<not> findUnique_fails e \<and> \<not> delete_fails e \<longrightarrow>
          searchCache (snd (getCachedResults e query w)) (toLowerCase (js e) query) = None"
    using assms by (simp add: getCachedResults_def getCachedResults_try_def)
  let ?w1 = "snd (getCachedResults e query w)"
  obtain rs w2 where p: "searchDuckDuckGo e query maxResults ?w1 = (Inr rs, w2)"
    using searchDuckDuckGo_total by blast
  from miss have "getCachedResults e query w = (Inr None, ?w1)"
    by (cases "getCachedResults e query w") simp
  from search_miss [OF this p]
  have s: "search e query maxResults w = (Inr rs, snd (cacheResults e query rs w2))" .
  obtain u us where
    "requested (snd (searchDuckDuckGo e query maxResults ?w1)) = requested ?w1 @ u # us"
    using searchDuckDuckGo_requested by blast
  with p have "length (requested w) < length (requested (snd (search e query maxResults w)))"
    by (simp add: s cacheResults_requested getCachedResults_requested)
  with miss del s p show ?thesis by simp
qed

theorem expired_entry_never_returned_witness:
  "searchCache world_stale (toLowerCase (js env_online) ''Rust'') = Some entry_stale
   \<and> expiresAt entry_stale \<le> now_read env_online
   \<and> \<not> findUnique_fails env_online \<and> \<not> delete_fails env_online
   \<and> fst (getCachedResults env_online ''Rust'' world_stale) = Inr None
   \<and> searchCache (snd (getCachedResults env_online ''Rust'' world_stale))
        (toLowerCase (js env_online) ''Rust'') = None
   \<and> length (requested world_stale)
       < length (requested (snd (search env_online ''Rust'' 5 world_stale)))"
proof -
  have h1: "searchCache world_stale (toLowerCase (js env_online) ''Rust'') = Some entry_stale"
    by (simp add: scenario_runtime lower_Rust world_stale_def)
  have h2: "expiresAt entry_stale \<le> now_read env_online"
    by (simp add: entry_stale_def env_online_def)
  have h3: "\<not> findUnique_fails env_online \<and> \<not> delete_fails env_online"
    by (simp add: env_online_def)
  from h1 h2 h3 show ?thesis
    using expired_entry_never_returned [OF h1 h2, of 5]
    by simp
qed

text \<open>
  C5. If the store holds, under the key of the query, an entry that has not expired at
  read time, and the read succeeds, \<^verbatim>\<open>search\<close> returns the stored list as it is, whatever
  \<^verbatim>\<open>maxResults\<close> says, and leaves the state as it was: no request is made, nothing is
  written.
\<close>

theorem cache_hit_returned_as_stored:
  assumes "searchCache w (toLowerCase (js e) query) = Some c"
      and "now_read e < expiresAt c"
      and "\<not> findUnique_fails e"
  shows "search e query maxResults w = (Inr (results c), w)"
  using assms by (rule search_hit)

theorem cache_hit_returned_as_stored_witness:
  "searchCache world_fresh (toLowerCase (js env_offline) ''Rust'') = Some entry_fresh
   \<and> now_read env_offline < expiresAt entry_fresh
   \<and> \<not> findUnique_fails env_offline
   \<and> search env_offline ''Rust'' 1 world_fresh = (Inr [result_book, result_example], world_fresh)"
proof -
  have h1: "searchCache world_fresh (toLowerCase (js env_offline) ''Rust'') = Some entry_fresh"
    by (simp add: scenario_runtime lower_Rust world_fresh_def)
  have h2: "now_read env_offline < expiresAt entry_fresh"
    by (simp add: entry_fresh_def env_offline_def)
  have h3: "\<not> findUnique_fails env_offline"
    by (simp add: env_offline_def)
  from h1 h2 h3 show ?thesis
    using cache_hit_returned_as_stored [OF h1 h2 h3, of 1]
    by (simp add: entry_fresh_def)
qed

text \<open>
  C6. When the cache misses and the store accepts the write: if DuckDuckGo's attempt
  succeeds with a list (empty or not), or it raises and Google's attempt returns a list,
  then the state \<^verbatim>\<open>search\<close> returns together with that list has, under the key of the
  query, exactly that list with \<^verbatim>\<open>expiresAt\<close> equal to the write time plus 24 hours,
  replacing whatever was stored there; every other slot is as the read left it.
\<close>

theorem fresh_fetch_is_cached:
  assumes "getCachedResults e query w = (Inr None, w1)"
      and "\<not> upsert_fails e"
  shows "(searchDuckDuckGo_try e query maxResults w1 = (Inr rs, w2) \<longrightarrow>
            search e query maxResults w =
              (Inr rs, w2\<lparr>searchCache := (searchCache w1)(toLowerCase (js e) query \<mapsto>
                 \<lparr>results = rs, expiresAt = now_write e + 24 * 60 * 60 * 1000\<rparr>)\<rparr>))
       \<and> (searchDuckDuckGo_try e query maxResults w1 = (Inl err, w2)
            \<and> fallbackSearch_try e query maxResults w2 = (Inr rs, w3) \<longrightarrow>
            search e query maxResults w =
              (Inr rs, w3\<lparr>searchCache := (searchCache w1)(toLowerCase (js e) query \<mapsto>
                 \<lparr>results = rs, expiresAt = now_write e + 24 * 60 * 60 * 1000\<rparr>)\<rparr>))"
proof -
  have written: "search e query maxResults w =
              (Inr rs, w'\<lparr>searchCache := (searchCache w1)(toLowerCase (js e) query \<mapsto>
                 \<lparr>results = rs, expiresAt = now_write e + 24 * 60 * 60 * 1000\<rparr>)\<rparr>)"
    if p: "searchDuckDuckGo e query maxResults w1 = (Inr rs, w')" for w'
  proof -
    from searchDuckDuckGo_cache [of e query maxResults w1] p
    have "searchCache w' = searchCache w1" by simp
    with search_miss [OF assms(1) p] assms(2) show ?thesis
      by (simp add: cacheResults_def cacheResults_try_def cacheExpiry_def)
  qed
  have primary: "searchDuckDuckGo e query maxResults w1 = (Inr rs, w2)"
    if "searchDuckDuckGo_try e query maxResults w1 = (Inr rs, w2)"
    using that by (simp add: searchDuckDuckGo_def)
  have fallback: "searchDuckDuckGo e query maxResults w1 = (Inr rs, w3)"
    if "searchDuckDuckGo_try e query maxResults w1 = (Inl err, w2)
            \<and> fallbackSearch_try e query maxResults w2 = (Inr rs, w3)"
    using that by (simp add: searchDuckDuckGo_def fallbackSearch_def)
  from written primary fallback show ?thesis
    by blast
qed

theorem fresh_fetch_is_cached_witness:
  "getCachedResults env_online ''rust'' world_empty = (Inr None, world_empty)
   \<and> \<not> upsert_fails env_online
   \<and> searchDuckDuckGo_try env_online ''rust'' 5 world_empty
       = (Inr [result_book, result_example],
          world_empty\<lparr>requested := [''https://html.duckduckgo.com/html/?q=rust'']\<rparr>)
   \<and> search env_online ''rust'' 5 world_empty
       = (Inr [result_book, result_example],
          \<lparr>searchCache = [''rust'' \<mapsto>
              \<lparr>results = [result_book, result_example], expiresAt = 2000 + 86400000\<rparr>],
           requested = [''https://html.duckduckgo.com/html/?q=rust'']\<rparr>)
   \<and> getCachedResults env_fallback ''rust'' world_empty = (Inr None, world_empty)
   \<and> \<not> upsert_fails env_fallback
   \<and> searchDuckDuckGo_try env_fallback ''rust'' 5 world_empty
       = (Inl NetworkError,
          world_empty\<lparr>requested := [''https://html.duckduckgo.com/html/?q=rust'']\<rparr>)
   \<and> fallbackSearch_try env_fallback ''rust'' 5
         (world_empty\<lparr>requested := [''https://html.duckduckgo.com/html/?q=rust'']\<rparr>)
       = (Inr [result_wrapped, result_relative],
          world_empty\<lparr>requested := [''https://html.duckduckgo.com/html/?q=rust'',
             ''https://www.google.com/search?q=rust&num=5'']\<rparr>)
   \<and> search env_fallback ''rust'' 5 world_empty
       = (Inr [result_wrapped, result_relative],
          \<lparr>searchCache = [''rust'' \<mapsto>
              \<lparr>results = [result_wrapped, result_relative], expiresAt = 2000 + 86400000\<rparr>],
           requested = [''https://html.duckduckgo.com/html/?q=rust'',
             ''https://www.google.com/search?q=rust&num=5'']\<rparr>)"
proof -
  have u1: "\<not> upsert_fails env_online" by (simp add: env_online_def)
  have m2: "getCachedResults env_fallback ''rust'' world_empty = (Inr None, world_empty)"
    by (simp add: getCachedResults_def getCachedResults_try_def env_fallback_def
        world_empty_def)
  have u2: "\<not> upsert_fails env_fallback" by (simp add: env_fallback_def)
  have t2: "searchDuckDuckGo_try env_fallback ''rust'' 5 world_empty
       = (Inl NetworkError,
          world_empty\<lparr>requested := [''https://html.duckduckgo.com/html/?q=rust'']\<rparr>)"
    by (simp add: searchDuckDuckGo_try_def encode_rust env_fallback_def world_empty_def)
  have f2: "fallbackSearch_try env_fallback ''rust'' 5
         (world_empty\<lparr>requested := [''https://html.duckduckgo.com/html/?q=rust'']\<rparr>)
       = (Inr [result_wrapped, result_relative],
          world_empty\<lparr>requested := [''https://html.duckduckgo.com/html/?q=rust'',
             ''https://www.google.com/search?q=rust&num=5'']\<rparr>)"
    by (simp add: fallbackSearch_try_def url_rust5 each_google5 env_fallback_def
        world_empty_def)
  have now: "now_write env_online = 2000" "now_write env_fallback = 2000"
    by (simp_all add: env_online_def env_fallback_def)
  from miss_online u1 try_online m2 u2 t2 f2 show ?thesis
    using fresh_fetch_is_cached [OF miss_online u1, of 5 "[result_book, result_example]"
        "world_empty\<lparr>requested := [''https://html.duckduckgo.com/html/?q=rust'']\<rparr>"]
      fresh_fetch_is_cached [OF m2 u2, of 5 "[result_wrapped, result_relative]"
        "world_empty\<lparr>requested := [''https://html.duckduckgo.com/html/?q=rust'']\<rparr>"
        NetworkError
        "world_empty\<lparr>requested := [''https://html.duckduckgo.com/html/?q=rust'',
             ''https://www.google.com/search?q=rust&num=5'']\<rparr>"]
    by (simp add: now scenario_runtime lower_rust world_empty_def)
qed

text \<open>
  C7, as stated, fails for the fallback. A response with status 503 makes \<^verbatim>\<open>fallbackSearch\<close>
  return the empty list, the very value it returns for a page that was fetched and parsed
  and has no qualifying container: its caller cannot tell the failure from the empty
  success.
\<close>

theorem fallback_failure_looks_like_empty_counterexample:
  "fst (fallbackSearch env_503 ''rust'' 5 world_empty) = Inr []
   \<and> fallbackSearch env_503 ''rust'' 5 world_empty
       = fallbackSearch env_blank ''rust'' 5 world_empty"
  by (simp add: fallbackSearch_def fallbackSearch_try_def env_503_def env_blank_def
      google_block_None unqualified_nosnippet)

text \<open>
  C7, amended. In \<^verbatim>\<open>searchDuckDuckGo\<close>, a query that cannot be encoded, a rejected request, a
  response that is not \<^verbatim>\<open>ok\<close> or a body that cannot be read raises an error inside the
  \<^verbatim>\<open>try\<close> block, with no partial list, and the \<^verbatim>\<open>catch\<close> answers with the result of
  \<^verbatim>\<open>fallbackSearch\<close>. In \<^verbatim>\<open>fallbackSearch\<close>, a rejected request, a response that is not
  \<^verbatim>\<open>ok\<close>, a body that cannot be read or an exception in the loop gives the empty list, as
  a normal return. For both providers a page that is fetched and has no qualifying
  container gives the empty list without any error.
\<close>

theorem provider_failure_handling:
  "((encodeURIComponent query = Inl err
      \<or> (\<exists>q. encodeURIComponent query = Inr q
            \<and> (fetch e (''https://html.duckduckgo.com/html/?q='' @ q) = Rejected
                \<or> (\<exists>r. fetch e (''https://html.duckduckgo.com/html/?q='' @ q) = Response r
                       \<and> (\<not> ok r \<or> body r = None))))) \<longrightarrow>
      (\<exists>err' w'. searchDuckDuckGo_try e query maxResults w = (Inl err', w')
         \<and> searchDuckDuckGo e query maxResults w = fallbackSearch e query maxResults w'))
   \<and> ((fetch e (fallback_url (js e) query maxResults) = Rejected
        \<or> (\<exists>r. fetch e (fallback_url (js e) query maxResults) = Response r
               \<and> (\<not> ok r \<or> body r = None
                   \<or> (\<exists>els err''. body r = Some els
                          \<and> google_each maxResults 0 els [] = Inl err'')))) \<longrightarrow>
      fst (fallbackSearch e query maxResults w) = Inr [])
   \<and> (encodeURIComponent query = Inr q
        \<and> fetch e (''https://html.duckduckgo.com/html/?q='' @ q) = Response r
        \<and> ok r \<and> body r = Some els \<and> (\<forall>b \<in> set els. \<not> qualifies b) \<longrightarrow>
      fst (searchDuckDuckGo_try e query maxResults w) = Inr [])
   \<and> (fetch e (fallback_url (js e) query maxResults) = Response r
        \<and> ok r \<and> body r = Some els \<and> (\<forall>b \<in> set els. \<not> qualifies b) \<longrightarrow>
      fst (fallbackSearch_try e query maxResults w) = Inr [])"
proof -
  have primary: "\<exists>err' w'. searchDuckDuckGo_try e query maxResults w = (Inl err', w')
         \<and> searchDuckDuckGo e query maxResults w = fallbackSearch e query maxResults w'"
    if "encodeURIComponent query = Inl err
      \<or> (\<exists>q. encodeURIComponent query = Inr q
            \<and> (fetch e (''https://html.duckduckgo.com/html/?q='' @ q) = Rejected
                \<or> (\<exists>r. fetch e (''https://html.duckduckgo.com/html/?q='' @ q) = Response r
                       \<and> (\<not> ok r \<or> body r = None))))"
  proof -
    from that have "\<exists>err' w'. searchDuckDuckGo_try e query maxResults w = (Inl err', w')"
      by (auto simp: searchDuckDuckGo_try_def Let_def)
    then show ?thesis
      by (auto simp: searchDuckDuckGo_def)
  qed
  have fallback: "fst (fallbackSearch e query maxResults w) = Inr []"
    if "fetch e (fallback_url (js e) query maxResults) = Rejected
        \<or> (\<exists>r. fetch e (fallback_url (js e) query maxResults) = Response r
               \<and> (\<not> ok r \<or> body r = None
                   \<or> (\<exists>els err''. body r = Some els
                          \<and> google_each maxResults 0 els [] = Inl err'')))"
    using that
    by (auto simp: fallbackSearch_def fallbackSearch_try_def Let_def)
  have empty1: "fst (searchDuckDuckGo_try e query maxResults w) = Inr []"
    if "encodeURIComponent query = Inr q
        \<and> fetch e (''https://html.duckduckgo.com/html/?q='' @ q) = Response r
        \<and> ok r \<and> body r = Some els \<and> (\<forall>b \<in> set els. \<not> qualifies b)"
  proof -
    from that have "\<forall>b \<in> set (take (nat maxResults) els). \<not> qualifies b"
      by (auto dest: in_set_takeD)
    then have "ddg_each maxResults 0 els [] = []" by (rule ddg_each_none)
    with that show ?thesis
      by (simp add: searchDuckDuckGo_try_def Let_def)
  qed
  have empty2: "fst (fallbackSearch_try e query maxResults w) = Inr []"
    if "fetch e (fallback_url (js e) query maxResults) = Response r
        \<and> ok r \<and> body r = Some els \<and> (\<forall>b \<in> set els. \<not> qualifies b)"
    using that google_each_none [of els maxResults 0 "[]"]
    by (simp add: fallbackSearch_try_def Let_def)
  from primary fallback empty1 empty2 show ?thesis
    by blast
qed

theorem provider_failure_handling_witness:
  "encodeURIComponent ''rust'' = Inr ''rust''
   \<and> fetch env_offline (''https://html.duckduckgo.com/html/?q='' @ ''rust'') = Rejected
   \<and> searchDuckDuckGo env_offline ''rust'' 5 world_empty
       = fallbackSearch env_offline ''rust'' 5
           (world_empty\<lparr>requested := [''https://html.duckduckgo.com/html/?q=rust'']\<rparr>)
   \<and> fetch env_offline (fallback_url (js env_offline) ''rust'' 5) = Rejected
   \<and> fst (fallbackSearch env_offline ''rust'' 5 world_empty) = Inr []
   \<and> fetch env_blank (''https://html.duckduckgo.com/html/?q='' @ ''rust'')
       = Response \<lparr>ok = True, statusText = ''OK'', body = Some [block_nosnippet]\<rparr>
   \<and> fetch env_blank (fallback_url (js env_blank) ''rust'' 5)
       = Response \<lparr>ok = True, statusText = ''OK'', body = Some [block_nosnippet]\<rparr>
   \<and> \<not> qualifies block_nosnippet
   \<and> fst (searchDuckDuckGo_try env_blank ''rust'' 5 world_empty) = Inr []
   \<and> fst (fallbackSearch_try env_blank ''rust'' 5 world_empty) = Inr []"
proof -
  have r1: "fetch env_offline (''https://html.duckduckgo.com/html/?q='' @ ''rust'') = Rejected"
    and r2: "fetch env_offline (fallback_url (js env_offline) ''rust'' 5) = Rejected"
    by (simp_all add: env_offline_def)
  have b1: "fetch env_blank (''https://html.duckduckgo.com/html/?q='' @ ''rust'')
       = Response \<lparr>ok = True, statusText = ''OK'', body = Some [block_nosnippet]\<rparr>"
    and b2: "fetch env_blank (fallback_url (js env_blank) ''rust'' 5)
       = Response \<lparr>ok = True, statusText = ''OK'', body = Some [block_nosnippet]\<rparr>"
    by (simp_all add: env_blank_def)
  have nq: "\<forall>b \<in> set [block_nosnippet]. \<not> qualifies b"
    by (simp add: unqualified_nosnippet)
  from encode_rust r1 r2 b1 b2 nq unqualified_nosnippet try_offline show ?thesis
    using provider_failure_handling
            [of "''rust''" URIError env_offline 5 world_empty "''rust''"]
          provider_failure_handling
            [of "''rust''" URIError env_blank 5 world_empty "''rust''"
                "\<lparr>ok = True, statusText = ''OK'', body = Some [block_nosnippet]\<rparr>"
                "[block_nosnippet]"]
    by simp
qed

text \<open>
  C8 fails on the fallback path. With no network, \<^verbatim>\<open>search('R&D', 5)\<close> requests DuckDuckGo
  with the query percent-encoded (\<^verbatim>\<open>R%26D\<close>) and then Google with the query as it is: the
  \<^verbatim>\<open>&\<close> ends the \<^verbatim>\<open>q\<close> parameter after \<^verbatim>\<open>R\<close>. \<^verbatim>\<open>fallbackSearch\<close> replaces blanks by \<^verbatim>\<open>+\<close>
  and encodes nothing else.
\<close>

theorem fallback_url_is_not_percent_encoded:
  "encodeURIComponent ''R&D'' = Inr ''R%26D''
   \<and> requested (snd (search env_offline ''R&D'' 5 world_empty))
       = [''https://html.duckduckgo.com/html/?q=R%26D'',
          ''https://www.google.com/search?q=R&D&num=5'']"
proof -
  have enc: "encodeURIComponent ''R&D'' = Inr ''R%26D''"
    by code_simp
  have u: "fallback_url runtime_latin1 ''R&D'' 5
      = ''https://www.google.com/search?q=R&D&num=5''"
    by code_simp
  have m: "getCachedResults env_offline ''R&D'' world_empty = (Inr None, world_empty)"
    by (simp add: getCachedResults_def getCachedResults_try_def env_offline_def
        world_empty_def)
  have p: "searchDuckDuckGo env_offline ''R&D'' 5 world_empty
     = (Inr [], world_empty\<lparr>requested := [''https://html.duckduckgo.com/html/?q=R%26D'',
          ''https://www.google.com/search?q=R&D&num=5'']\<rparr>)"
    by (simp add: searchDuckDuckGo_def searchDuckDuckGo_try_def enc
        fallbackSearch_def fallbackSearch_try_def u env_offline_def world_empty_def)
  have "requested (snd (search env_offline ''R&D'' 5 world_empty))
       = [''https://html.duckduckgo.com/html/?q=R%26D'',
          ''https://www.google.com/search?q=R&D&num=5'']"
    unfolding search_miss [OF m p]
    by (simp add: cacheResults_def cacheResults_try_def Let_def)
  with enc show ?thesis by simp
qed

text \<open>
  C9, as stated, fails. The Google loop does not rewrite a protocol-relative href: the
  container with \<^verbatim>\<open>href="//example.com/x"\<close> comes out with that very URL. The DuckDuckGo
  callback does not unwrap a redirect wrapper either.
\<close>

theorem raw_url_in_output_counterexample:
  "google_each 5 0 [block_relative] [] = Inr [result_relative]
   \<and> url result_relative = ''//example.com/x''
   \<and> map url (ddg_each 5 0 [block_wrapped] [])
       = [''/url?q=https%3A%2F%2Fexample.com%2Fx&sa=U'']"
  by code_simp

text \<open>
  C9, amended. A result pushed by the DuckDuckGo callback has as its URL the container's
  href, with \<^verbatim>\<open>https:\<close> put in front when the href begins with \<^verbatim>\<open>//\<close>; so no DuckDuckGo
  result has a URL beginning with \<^verbatim>\<open>//\<close>. A result pushed by the Google callback for a
  href of the form \<^verbatim>\<open>/url?q=<target>\<close> or \<^verbatim>\<open>/url?q=<target>&...\<close>, with a non-empty target
  free of \<^verbatim>\<open>&\<close>, has as its URL the percent-decoded target; for a href that does not begin
  with \<^verbatim>\<open>/url?q=\<close> its URL is the href unchanged.
\<close>

theorem url_normalisation_by_provider:
  "(ddg_block b = Some r \<longrightarrow>
      url r = (if startsWith (href_or_empty b) ''//'' then ''https:'' @ href_or_empty b
               else href_or_empty b)
      \<and> \<not> startsWith (url r) ''//'')
   \<and> (google_block b = Inr (Some r) \<and> href_or_empty b = ''/url?q='' @ t @ rest
        \<and> t \<noteq> [] \<and> CHR ''&'' \<notin> set t \<and> (rest = [] \<or> hd rest = CHR ''&'') \<longrightarrow>
      decodeURIComponent t = Inr (url r))
   \<and> (google_block b = Inr (Some r) \<and> \<not> startsWith (href_or_empty b) ''/url?q='' \<longrightarrow>
      url r = href_or_empty b)"
proof -
  have ddg1: "url r = (if startsWith (href_or_empty b) ''//'' then ''https:'' @ href_or_empty b
               else href_or_empty b)"
    if "ddg_block b = Some r"
    using that by (auto simp: ddg_block_def Let_def split: if_splits)
  have ddg2: "\<not> startsWith (url r) ''//''" if "ddg_block b = Some r"
    using that by (auto simp: ddg_block_def Let_def startsWith_def split: if_splits)
  have unwrap: "decodeURIComponent t = Inr (url r)"
    if a: "google_block b = Inr (Some r) \<and> href_or_empty b = ''/url?q='' @ t @ rest
        \<and> t \<noteq> [] \<and> CHR ''&'' \<notin> set t \<and> (rest = [] \<or> hd rest = CHR ''&'')"
  proof -
    from a have m: "match_url_q (href_or_empty b) = Some t"
      using match_url_q_wrapper [of t rest] by simp
    from a have "startsWith (href_or_empty b) ''/url?q=''"
      by (simp add: startsWith_def)
    with m have "cleanUrl (href_or_empty b) = decodeURIComponent t"
      by (simp add: cleanUrl_def)
    with a show ?thesis
      by (auto simp: google_block_def Let_def split: if_splits sum.splits)
  qed
  have other: "url r = href_or_empty b"
    if "google_block b = Inr (Some r) \<and> \<not> startsWith (href_or_empty b) ''/url?q=''"
    using that
    by (auto simp: google_block_def cleanUrl_def Let_def split: if_splits sum.splits)
  from ddg1 ddg2 unwrap other show ?thesis
    by blast
qed

theorem url_normalisation_by_provider_witness:
  "ddg_block block_book = Some result_book
   \<and> href_or_empty block_book = ''//doc.rust-lang.org/book/''
   \<and> url result_book = ''https://doc.rust-lang.org/book/''
   \<and> google_block block_wrapped = Inr (Some result_wrapped)
   \<and> href_or_empty block_wrapped = ''/url?q='' @ ''https%3A%2F%2Fexample.com%2Fx'' @ ''&sa=U''
   \<and> decodeURIComponent ''https%3A%2F%2Fexample.com%2Fx'' = Inr ''https://example.com/x''
   \<and> url result_wrapped = ''https://example.com/x''
   \<and> google_block block_relative = Inr (Some result_relative)
   \<and> \<not> startsWith (href_or_empty block_relative) ''/url?q=''
   \<and> url result_relative = href_or_empty block_relative"
proof -
  have d: "ddg_block block_book = Some result_book" by code_simp
  have dh: "href_or_empty block_book = ''//doc.rust-lang.org/book/''" by code_simp
  have g1: "google_block block_wrapped = Inr (Some result_wrapped)" by code_simp
  have h1: "href_or_empty block_wrapped
      = ''/url?q='' @ ''https%3A%2F%2Fexample.com%2Fx'' @ ''&sa=U''" by code_simp
  have t1: "''https%3A%2F%2Fexample.com%2Fx'' \<noteq> []
      \<and> CHR ''&'' \<notin> set ''https%3A%2F%2Fexample.com%2Fx''
      \<and> (''&sa=U'' = [] \<or> hd ''&sa=U'' = CHR ''&'')" by simp
  have g2: "google_block block_relative = Inr (Some result_relative)" by code_simp
  have h2: "\<not> startsWith (href_or_empty block_relative) ''/url?q=''" by code_simp
  have u1: "url result_book = ''https://doc.rust-lang.org/book/''"
    and u2: "url result_wrapped = ''https://example.com/x''"
    by (simp_all add: result_book_def result_wrapped_def)
  from d dh g1 h1 t1 g2 h2 u1 u2 show ?thesis
    using url_normalisation_by_provider [of block_book result_book]
          url_normalisation_by_provider [of block_wrapped result_wrapped
             "''https%3A%2F%2Fexample.com%2Fx''" "''&sa=U''"]
          url_normalisation_by_provider [of block_relative result_relative]
    by simp
qed

text \<open>
  C10. Every result that \<^verbatim>\<open>searchDuckDuckGo\<close> returns, whether it comes from DuckDuckGo or
  from the Google fallback, has a non-empty title, a non-empty URL and a non-empty snippet;
  a container that lacks one of the three is pushed by neither callback.
\<close>

theorem fresh_results_have_all_fields:
  "(fst (searchDuckDuckGo e query maxResults w) = Inr rs \<longrightarrow>
      (\<forall>r \<in> set rs. title r \<noteq> [] \<and> url r \<noteq> [] \<and> snippet r \<noteq> []))
   \<and> (\<not> qualifies b \<longrightarrow> ddg_block b = None \<and> google_block b = Inr None)"
proof -
  have fields: "title r \<noteq> [] \<and> url r \<noteq> [] \<and> snippet r \<noteq> []"
    if a: "fst (searchDuckDuckGo e query maxResults w) = Inr rs" and r: "r \<in> set rs" for r
  proof (cases "searchDuckDuckGo_try e query maxResults w")
    case (Pair res w')
    show ?thesis
    proof (cases res)
      case (Inl err)
      with Pair a have "fst (fallbackSearch e query maxResults w') = Inr rs"
        by (simp add: searchDuckDuckGo_def)
      from fallbackSearch_fields [OF this r] show ?thesis .
    next
      case (Inr rs')
      with Pair a have "fst (searchDuckDuckGo_try e query maxResults w) = Inr rs"
        by (simp add: searchDuckDuckGo_def)
      from searchDuckDuckGo_try_fields [OF this r] show ?thesis .
    qed
  qed
  have excluded: "ddg_block b = None \<and> google_block b = Inr None" if "\<not> qualifies b"
    using that by (simp add: ddg_block_None google_block_None)
  from fields excluded show ?thesis
    by blast
qed

theorem fresh_results_have_all_fields_witness:
  "fst (searchDuckDuckGo env_online ''rust'' 5 world_empty) = Inr [result_book, result_example]
   \<and> title result_book \<noteq> [] \<and> url result_book \<noteq> [] \<and> snippet result_book \<noteq> []
   \<and> title result_example \<noteq> [] \<and> url result_example \<noteq> []
   \<and> snippet result_example \<noteq> []
   \<and> \<not> qualifies block_nosnippet
   \<and> ddg_block block_nosnippet = None \<and> google_block block_nosnippet = Inr None"
proof -
  have p: "fst (searchDuckDuckGo env_online ''rust'' 5 world_empty)
      = Inr [result_book, result_example]"
    by (simp add: searchDuckDuckGo_def try_online)
  from p unqualified_nosnippet show ?thesis
    using fresh_results_have_all_fields
      [of env_online "''rust''" 5 world_empty "[result_book, result_example]" block_nosnippet]
    by simp
qed

end
